theory Spec2Isabelle
  imports Complex_Main "HOL-Library.AList"
begin

section \<open>JavaScript values\<close>

text \<open>
  The backend is JavaScript. A string is the list of its code units, of which the model has
  those below 256; \<open>undefined\<close> is \<open>None\<close>. A number that is only read, compared with zero
  or passed on (a coordinate, a radius, a number in a JSON value) is the real number it
  denotes; the arithmetic of the geo utility is that of binary64 and is the subject of the
  section on numbers.
\<close>

datatype json =
    JNull
  | JBool bool
  | JNum real
  | JStr string
  | JArr "json list"
  | JObj "(string \<times> json) list"

text \<open>An exception: its \<open>message\<close>, and \<open>error.response?.status\<close> when it has one.\<close>

record exn =
  message :: string
  response_status :: "nat option"

definition type_error :: exn where
  "type_error = \<lparr>message = ''TypeError'', response_status = None\<rparr>"

text \<open>Truthiness of a value, as \<open>if (v)\<close>, \<open>!v\<close> and \<open>v && w\<close> test it.\<close>

fun js_truthy :: "json \<Rightarrow> bool" where
  "js_truthy JNull = False"
| "js_truthy (JBool b) = b"
| "js_truthy (JNum x) = (x \<noteq> 0)"
| "js_truthy (JStr s) = (s \<noteq> [])"
| "js_truthy (JArr xs) = True"
| "js_truthy (JObj kvs) = True"

definition truthy_opt :: "json option \<Rightarrow> bool" where
  "truthy_opt v = (case v of None \<Rightarrow> False | Some j \<Rightarrow> js_truthy j)"

definition num_truthy :: "real option \<Rightarrow> bool" where
  "num_truthy v = (case v of None \<Rightarrow> False | Some x \<Rightarrow> x \<noteq> 0)"

text \<open>
  Reading a property \<open>v.k\<close> for the keys this program reads (\<open>message\<close>, \<open>content\<close>,
  \<open>query\<close>, \<open>formatted_query\<close>): on \<open>null\<close> it throws a TypeError, on an object it is
  the property or \<open>undefined\<close>, on a primitive or an array (which have none of these
  keys) it is \<open>undefined\<close>.
\<close>

fun get_prop :: "string \<Rightarrow> json \<Rightarrow> exn + json option" where
  "get_prop k JNull = Inl type_error"
| "get_prop k (JObj kvs) = Inr (map_of kvs k)"
| "get_prop k v = Inr None"

text \<open>The optional chain \<open>v.message?.content\<close>.\<close>

definition message_content :: "json \<Rightarrow> exn + json option" where
  "message_content v =
     (case get_prop ''message'' v of
        Inl e \<Rightarrow> Inl e
      | Inr None \<Rightarrow> Inr None
      | Inr (Some JNull) \<Rightarrow> Inr None
      | Inr (Some m) \<Rightarrow> get_prop ''content'' m)"

section \<open>Numbers (IEEE 754 binary64)\<close>

text \<open>
  A JavaScript Number is NaN, an infinity, or a finite binary64 value, kept as the real
  number it denotes. The two zeros are one value: a zero prints as \<open>0\<close> whatever its
  sign, every divisor of this program is a non-zero literal, and the arguments it gives
  to \<open>Math.atan2\<close> are square roots of a sum of products and of a difference, neither of
  which is the negative zero.

  \<open>nearest_double\<close> rounds a real number to the nearest binary64 value, a tie going to the
  even significand: the spacing of the values around \<open>x\<close> is \<open>quantum x\<close>, two to the
  exponent of \<open>x\<close> minus 52, and never below the subnormal spacing. \<open>fl\<close> is the result of an
  arithmetic operation whose exact result is \<open>x\<close>: it overflows to an infinity.
\<close>

datatype jsnum = NaN | PInf | NInf | Fin real

definition quantum :: "real \<Rightarrow> real" where
  "quantum x = 2 powi (max (\<lfloor>log 2 \<bar>x\<bar>\<rfloor> - 52) (- 1074))"

definition round_half_even :: "real \<Rightarrow> int" where
  "round_half_even r =
     (let f = \<lfloor>r\<rfloor>; d = r - of_int f
      in if d < 1 / 2 then f else if 1 / 2 < d then f + 1 else if even f then f else f + 1)"

definition nearest_double :: "real \<Rightarrow> real" where
  "nearest_double x =
     (if x = 0 then 0 else of_int (round_half_even (x / quantum x)) * quantum x)"

definition fl :: "real \<Rightarrow> jsnum" where
  "fl x =
     (let y = nearest_double x
      in if 2 ^ 1024 \<le> y then PInf else if y \<le> - (2 ^ 1024) then NInf else Fin y)"

text \<open>The operators \<open>-x\<close>, \<open>x + y\<close>, \<open>x - y\<close>, \<open>x * y\<close>, \<open>x / y\<close> and \<open>x < y\<close>.\<close>

fun jneg :: "jsnum \<Rightarrow> jsnum" where
  "jneg NaN = NaN"
| "jneg PInf = NInf"
| "jneg NInf = PInf"
| "jneg (Fin x) = Fin (- x)"

fun jadd :: "jsnum \<Rightarrow> jsnum \<Rightarrow> jsnum" where
  "jadd (Fin x) (Fin y) = fl (x + y)"
| "jadd NaN b = NaN"
| "jadd a NaN = NaN"
| "jadd PInf NInf = NaN"
| "jadd NInf PInf = NaN"
| "jadd PInf b = PInf"
| "jadd a PInf = PInf"
| "jadd NInf b = NInf"
| "jadd a NInf = NInf"

definition jsub :: "jsnum \<Rightarrow> jsnum \<Rightarrow> jsnum" where
  "jsub a b = jadd a (jneg b)"

fun jmul :: "jsnum \<Rightarrow> jsnum \<Rightarrow> jsnum" where
  "jmul (Fin x) (Fin y) = fl (x * y)"
| "jmul NaN b = NaN"
| "jmul a NaN = NaN"
| "jmul PInf PInf = PInf"
| "jmul PInf NInf = NInf"
| "jmul NInf PInf = NInf"
| "jmul NInf NInf = PInf"
| "jmul PInf (Fin y) = (if y = 0 then NaN else if 0 < y then PInf else NInf)"
| "jmul NInf (Fin y) = (if y = 0 then NaN else if 0 < y then NInf else PInf)"
| "jmul (Fin x) PInf = (if x = 0 then NaN else if 0 < x then PInf else NInf)"
| "jmul (Fin x) NInf = (if x = 0 then NaN else if 0 < x then NInf else PInf)"

text \<open>
  Every divisor of this program is a non-zero literal; for completeness a zero divisor is
  read as the positive zero.
\<close>

fun jdiv :: "jsnum \<Rightarrow> jsnum \<Rightarrow> jsnum" where
  "jdiv (Fin x) (Fin y) =
     (if y = 0 then (if x = 0 then NaN else if 0 < x then PInf else NInf) else fl (x / y))"
| "jdiv NaN b = NaN"
| "jdiv a NaN = NaN"
| "jdiv (Fin x) PInf = Fin 0"
| "jdiv (Fin x) NInf = Fin 0"
| "jdiv PInf (Fin y) = (if 0 \<le> y then PInf else NInf)"
| "jdiv NInf (Fin y) = (if 0 \<le> y then NInf else PInf)"
| "jdiv a b = NaN"

fun jless :: "jsnum \<Rightarrow> jsnum \<Rightarrow> bool" where
  "jless (Fin x) (Fin y) = (x < y)"
| "jless NaN b = False"
| "jless a NaN = False"
| "jless a NInf = False"
| "jless PInf b = False"
| "jless NInf b = True"
| "jless a PInf = True"

text \<open>Strict equality \<open>x === y\<close> of two Numbers: NaN equals nothing.\<close>

fun strict_equal :: "jsnum \<Rightarrow> jsnum \<Rightarrow> bool" where
  "strict_equal NaN b = False"
| "strict_equal a NaN = False"
| "strict_equal a b = (a = b)"

text \<open>
  What the runtime's library computes and the language does not fix: \<open>Math.sin\<close> and
  \<open>Math.cos\<close> of a finite non-zero argument and \<open>Math.atan2\<close> outside its exact cases
  (implementation-approximated), and the text of a Number that is not an integer below
  \<open>2^53\<close> in magnitude (its shortest digits that read back as the same value).
\<close>

record jslib =
  lib_sin :: "real \<Rightarrow> real"
  lib_cos :: "real \<Rightarrow> real"
  lib_atan2 :: "jsnum \<Rightarrow> jsnum \<Rightarrow> real"
  number_text :: "real \<Rightarrow> string"

text \<open>\<open>Math.sin\<close>, \<open>Math.cos\<close>, \<open>Math.atan2\<close>, \<open>Math.sqrt\<close> and \<open>Math.PI\<close>.\<close>

fun Math_sin :: "jslib \<Rightarrow> jsnum \<Rightarrow> jsnum" where
  "Math_sin lib (Fin x) = (if x = 0 then Fin 0 else Fin (lib_sin lib x))"
| "Math_sin lib v = NaN"

fun Math_cos :: "jslib \<Rightarrow> jsnum \<Rightarrow> jsnum" where
  "Math_cos lib (Fin x) = (if x = 0 then Fin 1 else Fin (lib_cos lib x))"
| "Math_cos lib v = NaN"

fun Math_atan2 :: "jslib \<Rightarrow> jsnum \<Rightarrow> jsnum \<Rightarrow> jsnum" where
  "Math_atan2 lib NaN x = NaN"
| "Math_atan2 lib y NaN = NaN"
| "Math_atan2 lib (Fin y) PInf = Fin 0"
| "Math_atan2 lib (Fin y) (Fin x) =
     (if y = 0 \<and> 0 \<le> x then Fin 0 else Fin (lib_atan2 lib (Fin y) (Fin x)))"
| "Math_atan2 lib y x = Fin (lib_atan2 lib y x)"

fun Math_sqrt :: "jsnum \<Rightarrow> jsnum" where
  "Math_sqrt (Fin x) = (if x < 0 then NaN else fl (sqrt x))"
| "Math_sqrt PInf = PInf"
| "Math_sqrt v = NaN"

definition Math_PI :: jsnum where
  "Math_PI = Fin (884279719003555 / 2 ^ 48)"

text \<open>\<open>Math.round\<close>: the nearest integer, a tie going up.\<close>

fun Math_round :: "jsnum \<Rightarrow> jsnum" where
  "Math_round (Fin x) = Fin (of_int \<lfloor>x + 1 / 2\<rfloor>)"
| "Math_round v = v"

section \<open>Geo utility (backend/maps/places.js)\<close>

definition toRad :: "jsnum \<Rightarrow> jsnum" where
  "toRad degrees = jmul degrees (jdiv Math_PI (Fin 180))"

definition calculateDistance :: "jslib \<Rightarrow> jsnum \<Rightarrow> jsnum \<Rightarrow> jsnum \<Rightarrow> jsnum \<Rightarrow> jsnum" where
  "calculateDistance lib lat1 lon1 lat2 lon2 =
     (let R = Fin 6371;
          dLat = toRad (jsub lat2 lat1);
          dLon = toRad (jsub lon2 lon1);
          a = jadd (jmul (Math_sin lib (jdiv dLat (Fin 2))) (Math_sin lib (jdiv dLat (Fin 2))))
                   (jmul (jmul (jmul (Math_cos lib (toRad lat1)) (Math_cos lib (toRad lat2)))
                               (Math_sin lib (jdiv dLon (Fin 2))))
                         (Math_sin lib (jdiv dLon (Fin 2))));
          c = jmul (Fin 2) (Math_atan2 lib (Math_sqrt a) (Math_sqrt (jsub (Fin 1) a)))
      in jmul R c)"

text \<open>Decimal digits of a natural number, and of an integer.\<close>

definition digit_char :: "nat \<Rightarrow> char" where
  "digit_char d = ''0123456789'' ! d"

fun show_nat :: "nat \<Rightarrow> string" where
  "show_nat n =
     (if n < 10 then [digit_char n] else show_nat (n div 10) @ [digit_char (n mod 10)])"

declare show_nat.simps [simp del]

definition show_int :: "int \<Rightarrow> string" where
  "show_int i = (if i < 0 then ''-'' @ show_nat (nat (- i)) else show_nat (nat i))"

text \<open>
  The string of a Number, as a template literal makes it. An integer below \<open>2^53\<close> in
  magnitude prints as its decimal digits; the text of any other finite value is the
  library's.
\<close>

fun number_to_string :: "jslib \<Rightarrow> jsnum \<Rightarrow> string" where
  "number_to_string lib NaN = ''NaN''"
| "number_to_string lib PInf = ''Infinity''"
| "number_to_string lib NInf = ''-Infinity''"
| "number_to_string lib (Fin x) =
     (if of_int \<lfloor>x\<rfloor> = x \<and> \<bar>x\<bar> < 2 ^ 53 then show_int \<lfloor>x\<rfloor> else number_text lib x)"

text \<open>
  \<open>x.toFixed(1)\<close>: the sign, then the integer \<open>n\<close> with \<open>n / 10\<close> nearest to the magnitude
  (the larger of two), padded to two digits, with the point before the last digit. The
  rounding is of the exact value of \<open>x\<close>.
\<close>

fun toFixed1 :: "jslib \<Rightarrow> jsnum \<Rightarrow> string" where
  "toFixed1 lib (Fin x) =
     (let s = (if x < 0 then ''-'' else '''');
          y = \<bar>x\<bar>
      in if 10 ^ 21 \<le> y then s @ number_to_string lib (Fin y)
         else (let n = nat \<lfloor>y * 10 + 1 / 2\<rfloor>;
                   m0 = show_nat n;
                   m = (if length m0 \<le> 1 then ''0'' @ m0 else m0);
                   k = length m
               in s @ take (k - 1) m @ ''.'' @ drop (k - 1) m))"
| "toFixed1 lib v = number_to_string lib v"

definition formatDistance :: "jslib \<Rightarrow> jsnum \<Rightarrow> string" where
  "formatDistance lib distanceKm =
     (if jless distanceKm (Fin 1)
      then number_to_string lib (Math_round (jmul distanceKm (Fin 1000))) @ ''m''
      else if jless distanceKm (Fin 10) then toFixed1 lib distanceKm @ ''km''
      else number_to_string lib (Math_round distanceKm) @ ''km'')"

section \<open>Places gateway (backend/maps/places.js)\<close>

text \<open>
  A place as the provider returns it. Fields that are only passed through are values of
  type \<open>json option\<close>; \<open>place.geometry?.location?.lat\<close> is \<open>raw_lat\<close> below.
\<close>

record raw_location =
  loc_lat :: "real option"
  loc_lng :: "real option"

record raw_geometry =
  geo_location :: "raw_location option"

record hours =
  open_now :: "json option"
  periods :: "json option"
  weekday_text :: "json option"

record raw_photo =
  raw_photo_reference :: "json option"
  raw_width :: "json option"
  raw_height :: "json option"
  html_attributions :: "json option"

record photo =
  photo_reference :: "json option"
  width :: "json option"
  height :: "json option"

record raw_place =
  raw_place_id :: "json option"
  raw_name :: "json option"
  raw_formatted_address :: "json option"
  raw_vicinity :: "json option"
  geometry :: "raw_geometry option"
  raw_rating :: "json option"
  raw_user_ratings_total :: "json option"
  raw_price_level :: "json option"
  international_phone_number :: "json option"
  raw_website :: "json option"
  raw_opening_hours :: "hours option"
  raw_types :: "json option"
  raw_photos :: "raw_photo list option"
  raw_permanently_closed :: "json option"

record latlng =
  lat :: real
  lng :: real

text \<open>The place record of the result; \<open>null\<close> and an absent key are both \<open>None\<close>.\<close>

record place =
  place_id :: "json option"
  name :: "json option"
  formatted_address :: "json option"
  vicinity :: "json option"
  place_lat :: "real option"
  place_lng :: "real option"
  rating :: "json option"
  user_ratings_total :: "json option"
  price_level :: "json option"
  phone :: "json option"
  website :: "json option"
  opening_hours :: "hours option"
  types :: "json option"
  photos :: "photo list"
  distance_km :: "jsnum option"
  distance_text :: "string option"
  permanently_closed :: "json option"

definition raw_lat :: "raw_place \<Rightarrow> real option" where
  "raw_lat p =
     (case geometry p of None \<Rightarrow> None
      | Some g \<Rightarrow> (case geo_location g of None \<Rightarrow> None | Some l \<Rightarrow> loc_lat l))"

definition raw_lng :: "raw_place \<Rightarrow> real option" where
  "raw_lng p =
     (case geometry p of None \<Rightarrow> None
      | Some g \<Rightarrow> (case geo_location g of None \<Rightarrow> None | Some l \<Rightarrow> loc_lng l))"

text \<open>
  The distance of one place (lines 147 to 154): the guard
  \<open>userLocation && userLocation.lat && userLocation.lng && lat && lng\<close> tests truthiness,
  and the number 0 is falsy.
\<close>

definition place_distance :: "jslib \<Rightarrow> latlng option \<Rightarrow> raw_place \<Rightarrow> jsnum option" where
  "place_distance lib userLocation p =
     (case userLocation of
        None \<Rightarrow> None
      | Some u \<Rightarrow>
          (if lat u \<noteq> 0 \<and> lng u \<noteq> 0 \<and> num_truthy (raw_lat p) \<and> num_truthy (raw_lng p)
           then (case (raw_lat p, raw_lng p) of
                   (Some plat, Some plng) \<Rightarrow>
                     Some (calculateDistance lib (Fin (lat u)) (Fin (lng u)) (Fin plat) (Fin plng))
                 | _ \<Rightarrow> None)
           else None))"

definition map_photo :: "raw_photo \<Rightarrow> photo" where
  "map_photo ph =
     \<lparr>photo_reference = raw_photo_reference ph, width = raw_width ph, height = raw_height ph\<rparr>"

text \<open>The callback of \<open>results.slice(0, 20).map\<close> (lines 146 to 184).\<close>

definition map_place :: "jslib \<Rightarrow> latlng option \<Rightarrow> raw_place \<Rightarrow> place" where
  "map_place lib userLocation p =
     (let distance = place_distance lib userLocation p
      in \<lparr>place_id = raw_place_id p,
          name = raw_name p,
          formatted_address = raw_formatted_address p,
          vicinity = raw_vicinity p,
          place_lat = raw_lat p,
          place_lng = raw_lng p,
          rating = raw_rating p,
          user_ratings_total = raw_user_ratings_total p,
          price_level = raw_price_level p,
          phone = international_phone_number p,
          website = raw_website p,
          opening_hours = raw_opening_hours p,
          types = raw_types p,
          photos = (case raw_photos p of None \<Rightarrow> [] | Some phs \<Rightarrow> map map_photo (take 3 phs)),
          distance_km = distance,
          distance_text = (case distance of None \<Rightarrow> None | Some d \<Rightarrow> Some (formatDistance lib d)),
          permanently_closed = raw_permanently_closed p\<rparr>)"

text \<open>
  The options of \<open>searchPlaces\<close>, the parameters it sends, the provider's reply and its
  own result. The \<open>location\<close> option is an object with \<open>lat\<close> and \<open>lng\<close>, or a string.
\<close>

datatype location_arg = LocCoords "real option" "real option" | LocText string

record search_options =
  opt_query :: "json option"
  opt_location :: "location_arg option"
  opt_radius :: real
  opt_userLocation :: "latlng option"
  opt_language :: string

record search_params =
  sp_query :: "json option"
  sp_key :: "string option"
  sp_language :: string
  sp_location :: "latlng option"
  sp_radius :: "real option"

record text_search_response =
  data_results :: "raw_place list option"

record search_result =
  results :: "place list"
  search_center :: "latlng option"
  error :: "string option"

text \<open>
  The libraries and the process environment the gateway uses: the number library of the
  runtime, the string of a value in a template literal, the API key, and the client's
  \<open>textSearch\<close>, which rejects with an exception or resolves with a reply.
\<close>

record places_client =
  number_library :: jslib
  template_string :: "json option \<Rightarrow> string"
  api_key :: "string option"
  textSearch :: "search_params \<Rightarrow> exn + text_search_response"

definition build_search_params :: "places_client \<Rightarrow> search_options \<Rightarrow> search_params" where
  "build_search_params client opts =
     (let searchParams =
            \<lparr>sp_query = opt_query opts, sp_key = api_key client,
             sp_language = opt_language opts, sp_location = None, sp_radius = None\<rparr>
      in case opt_location opts of
           None \<Rightarrow> searchParams
         | Some (LocCoords llat llng) \<Rightarrow>
             (case (llat, llng) of
                (Some a, Some b) \<Rightarrow>
                  (if a \<noteq> 0 \<and> b \<noteq> 0
                   then searchParams\<lparr>sp_location := Some \<lparr>lat = a, lng = b\<rparr>,
                                     sp_radius := Some (opt_radius opts)\<rparr>
                   else searchParams)
              | _ \<Rightarrow> searchParams)
         | Some (LocText l) \<Rightarrow>
             (if l \<noteq> []
              then searchParams\<lparr>sp_query :=
                     Some (JStr ((case opt_query opts of Some (JStr q) \<Rightarrow> q
                                  | q \<Rightarrow> template_string client q) @ '' in '' @ l))\<rparr>
              else searchParams))"

definition searchPlaces :: "places_client \<Rightarrow> search_options \<Rightarrow> exn + search_result" where
  "searchPlaces client opts =
     (case textSearch client (build_search_params client opts) of
        Inr response \<Rightarrow>
          (case data_results response of
             None \<Rightarrow> Inr \<lparr>results = [], search_center = None, error = None\<rparr>
           | Some rs \<Rightarrow>
               Inr \<lparr>results = map (map_place (number_library client) (opt_userLocation opts))
                                  (take 20 rs),
                    search_center = opt_userLocation opts,
                    error = None\<rparr>)
      | Inl e \<Rightarrow>
          (if response_status e = Some 403
           then Inr \<lparr>results = [], search_center = None,
                     error = Some ''Google Maps API key issue - check enabled APIs''\<rparr>
           else Inl e))"

section \<open>Intent extractor (backend/agent.js)\<close>

text \<open>
  The reply of \<open>fetch\<close> to the extractor: \<open>response.ok\<close>, the status, and the body as
  \<open>response.json()\<close> gives it (\<open>None\<close> when that rejects).
\<close>

record http_response =
  ok :: bool
  status :: nat
  json_body :: "json option"

text \<open>
  An intent is the object the extractor returns, as its named properties. The fallback
  of the \<open>catch\<close> block of \<open>extractLocationIntent\<close> (lines 80 to 89):
\<close>

type_synonym intent = "(string \<times> json) list"

definition fallback_intent :: "string \<Rightarrow> intent" where
  "fallback_intent userQuery =
     [(''query'', JStr userQuery), (''location'', JStr ''near me''),
      (''formatted_query'', JStr userQuery)]"

text \<open>
  Lines 69 to 78, on the properties of an object (an array starts with none of the two):
  a falsy \<open>query\<close> becomes the raw utterance, a falsy \<open>formatted_query\<close> becomes
  \<open>query\<close>.
\<close>

definition validate_fields :: "string \<Rightarrow> intent \<Rightarrow> intent" where
  "validate_fields userQuery extracted =
     (let e1 = (if \<not> truthy_opt (map_of extracted ''query'')
                then AList.update ''query'' (JStr userQuery) extracted else extracted)
      in if \<not> truthy_opt (map_of e1 ''formatted_query'')
         then (case map_of e1 ''query'' of
                 Some q \<Rightarrow> AList.update ''formatted_query'' q e1
               | None \<Rightarrow> e1)
         else e1)"

text \<open>
  \<open>extractLocationIntent\<close>. \<open>parse\<close> is \<open>JSON.parse\<close> (\<open>None\<close> for a SyntaxError). The
  module is an ES module, so it runs in strict mode: on a parsed primitive
  \<open>extracted.query\<close> is \<open>undefined\<close> and the assignment \<open>extracted.query = userQuery\<close>
  throws a TypeError; on \<open>null\<close> the read throws. Every throw inside the \<open>try\<close> ends in
  the fallback.
\<close>

definition extractLocationIntent ::
  "(json \<Rightarrow> json option) \<Rightarrow> exn + http_response \<Rightarrow> string \<Rightarrow> intent" where
  "extractLocationIntent parse fetched userQuery =
     (case fetched of
        Inl e \<Rightarrow> fallback_intent userQuery
      | Inr response \<Rightarrow>
          (if \<not> ok response then fallback_intent userQuery
           else case json_body response of
                  None \<Rightarrow> fallback_intent userQuery
                | Some result \<Rightarrow>
                    (case message_content result of
                       Inl e \<Rightarrow> fallback_intent userQuery
                     | Inr None \<Rightarrow> fallback_intent userQuery
                     | Inr (Some content) \<Rightarrow>
                         (if \<not> js_truthy content then fallback_intent userQuery
                          else case parse content of
                                 None \<Rightarrow> fallback_intent userQuery
                               | Some (JObj kvs) \<Rightarrow> validate_fields userQuery kvs
                               | Some (JArr xs) \<Rightarrow> validate_fields userQuery []
                               | Some v \<Rightarrow> fallback_intent userQuery))))"

text \<open>
  Step 1 of \<open>streamChatWithTools\<close> (lines 180 to 188): the extractor raced against a
  timer of 3000 ms. Which of the two settles first is an input of the model;
  \<open>extractLocationIntent\<close> never rejects, so the \<open>catch\<close> runs exactly when the timer
  wins.
\<close>

datatype race = ExtractorFirst | TimerFirst

definition extract_with_timeout ::
  "(json \<Rightarrow> json option) \<Rightarrow> exn + http_response \<Rightarrow> race \<Rightarrow> string \<Rightarrow> intent" where
  "extract_with_timeout parse fetched race userQuery =
     (case race of
        ExtractorFirst \<Rightarrow> extractLocationIntent parse fetched userQuery
      | TimerFirst \<Rightarrow> [(''query'', JStr userQuery), (''formatted_query'', JStr userQuery)])"

section \<open>Narration (backend/agent.js)\<close>

text \<open>
  The body of the streaming reply, as the successive reads give it: the decoded chunks,
  then \<open>done\<close> (\<open>None\<close>) or a read that rejects. Every awaited call is taken to settle.
  The prompt that is sent (lines 104 to 112) does not reach the output and is left out.
\<close>

record body_stream =
  chunks :: "string list"
  failure :: "exn option"

text \<open>\<open>chunk.split("\n")\<close>, and \<open>line.trim()\<close> being non-empty.\<close>

fun split_nl :: "string \<Rightarrow> string list" where
  "split_nl [] = [[]]"
| "split_nl (c # cs) =
     (if c = CHR 0x0A then [] # split_nl cs
      else (case split_nl cs of l # ls \<Rightarrow> (c # l) # ls | [] \<Rightarrow> [[c]]))"

definition js_whitespace :: "char \<Rightarrow> bool" where
  "js_whitespace c =
     (c = CHR 0x09 \<or> c = CHR 0x0A \<or> c = CHR 0x0B \<or> c = CHR 0x0C \<or> c = CHR 0x0D \<or>
      c = CHR 0x20 \<or> c = CHR 0xA0)"

definition trim_nonempty :: "string \<Rightarrow> bool" where
  "trim_nonempty line = list_ex (\<lambda>c. \<not> js_whitespace c) line"

text \<open>
  A callback takes its argument and the state of its owner and returns the new state,
  and the exception when it throws.
\<close>

type_synonym ('a, 's) callback = "'a \<Rightarrow> 's \<Rightarrow> 's \<times> exn option"

text \<open>
  One line of a chunk (lines 142 to 147): everything thrown inside, also by \<open>onChunk\<close>,
  is dropped by the empty \<open>catch\<close>.
\<close>

definition handle_line ::
  "(json \<Rightarrow> json option) \<Rightarrow> (json, 's) callback \<Rightarrow> 's \<Rightarrow> string \<Rightarrow> 's" where
  "handle_line parse onChunk s line =
     (case parse (JStr line) of
        None \<Rightarrow> s
      | Some parsed \<Rightarrow>
          (case message_content parsed of
             Inl e \<Rightarrow> s
           | Inr None \<Rightarrow> s
           | Inr (Some content) \<Rightarrow>
               (if js_truthy content then fst (onChunk content s) else s)))"

definition handle_chunk ::
  "(json \<Rightarrow> json option) \<Rightarrow> (json, 's) callback \<Rightarrow> 's \<Rightarrow> string \<Rightarrow> 's" where
  "handle_chunk parse onChunk s chunk =
     foldl (handle_line parse onChunk) s (filter trim_nonempty (split_nl chunk))"

text \<open>
  \<open>streamLLMResponse\<close>: \<open>fetch\<close> rejects (a transport error, or the abort of the timer
  of 10 s), or the body is read to its end; the \<open>catch\<close> rethrows.
\<close>

definition streamLLMResponse ::
  "(json \<Rightarrow> json option) \<Rightarrow> exn + body_stream \<Rightarrow> (json, 's) callback \<Rightarrow> 's \<Rightarrow>
   's \<times> exn option" where
  "streamLLMResponse parse fetched onChunk s =
     (case fetched of
        Inl e \<Rightarrow> (s, Some e)
      | Inr body \<Rightarrow> (foldl (handle_chunk parse onChunk) s (chunks body), failure body))"

section \<open>Chat orchestrator (backend/agent.js)\<close>

record chat_message =
  role :: string
  content :: string

text \<open>
  What one turn gets from outside: \<open>JSON.parse\<close>, \<open>JSON.stringify\<close> of the list of
  places, the places client, the reply to the extractor and its race with the timer, and
  the reply to the narration call.
\<close>

record turn_env =
  json_parse :: "json \<Rightarrow> json option"
  stringify_places :: "place list \<Rightarrow> string"
  client :: places_client
  extraction_reply :: "exn + http_response"
  extraction_race :: race
  narration_reply :: "exn + body_stream"

text \<open>\<open>messages.filter(m => m.role === "user").pop()\<close>.\<close>

definition last_user_message :: "chat_message list \<Rightarrow> chat_message option" where
  "last_user_message messages =
     (case filter (\<lambda>m. role m = ''user'') messages of
        [] \<Rightarrow> None
      | m # ms \<Rightarrow> Some (last (m # ms)))"

text \<open>\<open>JSON.stringify({ type: "places", data: places })\<close>: the keys in insertion order.\<close>

definition places_chunk :: "(place list \<Rightarrow> string) \<Rightarrow> place list \<Rightarrow> string" where
  "places_chunk stringify places = ''{\"type\":\"places\",\"data\":'' @ stringify places @ ''}''"

text \<open>The search options of step 2: the query and the user's location, the rest defaults.\<close>

definition chat_search_options :: "intent \<Rightarrow> latlng option \<Rightarrow> search_options" where
  "chat_search_options extracted userLocation =
     \<lparr>opt_query = map_of extracted ''formatted_query'', opt_location = None,
      opt_radius = 5000, opt_userLocation = userLocation, opt_language = ''en''\<rparr>"

text \<open>
  Steps 3 and 4 and the completion signal (lines 202 to 218): a throw of the first or
  the last \<open>onChunk\<close> leaves the block, a throw of the narration is caught and logged.
\<close>

definition emit_places_and_narrate ::
  "turn_env \<Rightarrow> place list \<Rightarrow> (json, 's) callback \<Rightarrow> 's \<Rightarrow> 's \<times> exn option" where
  "emit_places_and_narrate env places onChunk s =
     (case (if places \<noteq> []
            then onChunk (JStr (places_chunk (stringify_places env) places)) s
            else (s, None)) of
        (s1, Some e) \<Rightarrow> (s1, Some e)
      | (s1, None) \<Rightarrow>
          (let s2 = fst (streamLLMResponse (json_parse env) (narration_reply env) onChunk s1)
           in onChunk (JStr []) s2))"

text \<open>The \<open>try\<close> block of \<open>streamChatWithTools\<close> (lines 167 to 219).\<close>

definition chat_try ::
  "turn_env \<Rightarrow> chat_message list \<Rightarrow> (json, 's) callback \<Rightarrow> (string, 's) callback \<Rightarrow>
   latlng option \<Rightarrow> 's \<Rightarrow> 's \<times> exn option" where
  "chat_try env messages onChunk onError userLocation s =
     (case last_user_message messages of
        None \<Rightarrow> onError ''No user message found'' s
      | Some lastUserMessage \<Rightarrow>
          (let userQuery = content lastUserMessage;
               extracted = extract_with_timeout (json_parse env) (extraction_reply env)
                             (extraction_race env) userQuery
           in case searchPlaces (client env) (chat_search_options extracted userLocation) of
                Inl e \<Rightarrow> (s, Some e)
              | Inr placesResult \<Rightarrow>
                  (case error placesResult of
                     None \<Rightarrow> emit_places_and_narrate env (results placesResult) onChunk s
                   | Some err \<Rightarrow>
                       (if err \<noteq> [] then onError err s
                        else emit_places_and_narrate env (results placesResult) onChunk s))))"

text \<open>
  \<open>streamChatWithTools\<close>: the \<open>catch\<close> (lines 221 to 225) reports the message through
  \<open>onError\<close> and rethrows. The result is the state of the callbacks' owner and the
  exception the call rejects with, if any.
\<close>

definition streamChatWithTools ::
  "turn_env \<Rightarrow> chat_message list \<Rightarrow> (json, 's) callback \<Rightarrow> (string, 's) callback \<Rightarrow>
   latlng option \<Rightarrow> 's \<Rightarrow> 's \<times> exn option" where
  "streamChatWithTools env messages onChunk onError userLocation s =
     (case chat_try env messages onChunk onError userLocation s of
        (s1, None) \<Rightarrow> (s1, None)
      | (s1, Some e) \<Rightarrow>
          (case onError (message e) s1 of
             (s2, None) \<Rightarrow> (s2, Some e)
           | (s2, Some e2) \<Rightarrow> (s2, Some e2)))"

text \<open>
  The orchestrator's output stream is the sequence of calls it makes to its two
  callbacks. These two callbacks record it and never throw.
\<close>

datatype call = OnChunk json | OnError string

definition record_chunk :: "(json, call list) callback" where
  "record_chunk chunk tr = (tr @ [OnChunk chunk], None)"

definition record_error :: "(string, call list) callback" where
  "record_error err tr = (tr @ [OnError err], None)"

definition chat_turn ::
  "turn_env \<Rightarrow> chat_message list \<Rightarrow> latlng option \<Rightarrow> call list \<times> exn option" where
  "chat_turn env messages userLocation =
     streamChatWithTools env messages record_chunk record_error userLocation []"

section \<open>The chat endpoint (POST /api/chat of the server)\<close>

text \<open>
  The response object: whether the headers have gone out, the status code, what has been
  written to the body, and whether the response has been ended. \<open>res.write\<close> sends the
  headers with the first piece of the body.
\<close>

record res =
  headersSent :: bool
  statusCode :: nat
  writes :: "string list"
  ended :: bool

definition fresh_res :: res where
  "fresh_res = \<lparr>headersSent = False, statusCode = 200, writes = [], ended = False\<rparr>"

definition res_write :: "string \<Rightarrow> res \<Rightarrow> res" where
  "res_write data r = r\<lparr>headersSent := True, writes := writes r @ [data]\<rparr>"

definition res_end :: "res \<Rightarrow> res" where
  "res_end r = r\<lparr>headersSent := True, ended := True\<rparr>"

text \<open>\<open>res.status(code).json(body)\<close>, with the body already a JSON text.\<close>

definition res_status_json :: "nat \<Rightarrow> string \<Rightarrow> res \<Rightarrow> res" where
  "res_status_json code body r =
     r\<lparr>headersSent := True, statusCode := code, writes := writes r @ [body], ended := True\<rparr>"

text \<open>
  \<open>JSON.stringify\<close> of a string: the quotation mark and the backslash are escaped, the
  control characters become their short escapes or \<open>\u00XX\<close>, every other character
  stands for itself.
\<close>

definition hex_char :: "nat \<Rightarrow> char" where
  "hex_char d = ''0123456789abcdef'' ! d"

definition json_escape_char :: "char \<Rightarrow> string" where
  "json_escape_char c =
     (if c = CHR 0x22 then [CHR 0x5C, CHR 0x22]
      else if c = CHR 0x5C then [CHR 0x5C, CHR 0x5C]
      else if c = CHR 0x08 then [CHR 0x5C, CHR ''b'']
      else if c = CHR 0x0C then [CHR 0x5C, CHR ''f'']
      else if c = CHR 0x0A then [CHR 0x5C, CHR ''n'']
      else if c = CHR 0x0D then [CHR 0x5C, CHR ''r'']
      else if c = CHR 0x09 then [CHR 0x5C, CHR ''t'']
      else if (of_char c :: nat) < 32
      then [CHR 0x5C, CHR ''u'', CHR ''0'', CHR ''0'',
            hex_char ((of_char c :: nat) div 16), hex_char ((of_char c :: nat) mod 16)]
      else [c])"

definition json_quote :: "string \<Rightarrow> string" where
  "json_quote s = [CHR 0x22] @ concat (map json_escape_char s) @ [CHR 0x22]"

text \<open>\<open>JSON.stringify({ content: chunk })\<close>.\<close>

definition stringify_content :: "string \<Rightarrow> string" where
  "stringify_content chunk = ''{\"content\":'' @ json_quote chunk @ ''}''"

text \<open>\<open>JSON.stringify({ error: m })\<close>: a property whose value is \<open>undefined\<close> is left out.\<close>

definition stringify_error :: "string option \<Rightarrow> string" where
  "stringify_error m =
     (case m of None \<Rightarrow> ''{}'' | Some s \<Rightarrow> ''{\"error\":'' @ json_quote s @ ''}'')"

text \<open>The template \<open>data: ${payload}\n\n\<close>.\<close>

definition sse_frame :: "string \<Rightarrow> string" where
  "sse_frame payload = ''data: '' @ payload @ [CHR 0x0A, CHR 0x0A]"

text \<open>\<open>chunk.startsWith(p)\<close>.\<close>

definition starts_with :: "string \<Rightarrow> string \<Rightarrow> bool" where
  "starts_with p chunk = (take (length p) chunk = p)"

text \<open>The state the two callbacks of the endpoint share.\<close>

record chat_state =
  response :: res
  chunkCount :: nat

text \<open>
  The first callback (lines 281 to 293). \<open>chunk.startsWith\<close> is a function on a string
  only: on any other value the call throws a TypeError before anything is written.
\<close>

definition sse_on_chunk :: "(json, chat_state) callback" where
  "sse_on_chunk chunk st =
     (case chunk of
        JStr c \<Rightarrow>
          (if starts_with ''{\"type\":'' c
           then (st\<lparr>response := res_write (sse_frame c) (response st)\<rparr>, None)
           else (st\<lparr>response := res_write (sse_frame (stringify_content c)) (response st),
                    chunkCount := chunkCount st + 1\<rparr>, None))
      | _ \<Rightarrow> (st, Some type_error))"

text \<open>
  The second callback (lines 294 to 297) reads \<open>error.message\<close>. The orchestrator calls it
  with a string, and the property \<open>message\<close> of a string is \<open>undefined\<close>.
\<close>

definition message_of_string :: "string \<Rightarrow> string option" where
  "message_of_string err = None"

definition sse_on_error :: "(string, chat_state) callback" where
  "sse_on_error err st =
     (st\<lparr>response := res_write (sse_frame (stringify_error (message_of_string err)))
                          (response st)\<rparr>, None)"

text \<open>
  The handler of \<open>POST /api/chat\<close> (lines 260 to 310). The body's \<open>messages\<close> is \<open>None\<close>
  when it is missing or not an array. Setting a header sends nothing.
\<close>

definition chat_endpoint ::
  "turn_env \<Rightarrow> chat_message list option \<Rightarrow> latlng option \<Rightarrow> res" where
  "chat_endpoint env body_messages body_userLocation =
     (case body_messages of
        None \<Rightarrow> res_status_json 400 ''{\"error\":\"Messages array is required\"}'' fresh_res
      | Some messages \<Rightarrow>
          (case streamChatWithTools env messages sse_on_chunk sse_on_error body_userLocation
                  \<lparr>response = fresh_res, chunkCount = 0\<rparr> of
             (st, None) \<Rightarrow> res_end (res_write (sse_frame ''[DONE]'') (response st))
           | (st, Some e) \<Rightarrow>
               (if \<not> headersSent (response st)
                then res_status_json 500
                       (''{\"error\":\"Chat failed\",\"details\":'' @ json_quote (message e) @ ''}'')
                       (response st)
                else response st)))"

section \<open>Vocabulary for the output stream\<close>

text \<open>
  The calls the narration step makes when its callback is the recorder, a content delta
  (a chunk of the narration: never the empty string, since a falsy content is not
  forwarded), and an error event.
\<close>

definition narration_calls :: "turn_env \<Rightarrow> call list" where
  "narration_calls env =
     fst (streamLLMResponse (json_parse env) (narration_reply env) record_chunk [])"

definition is_content_delta :: "call \<Rightarrow> bool" where
  "is_content_delta c = (case c of OnChunk v \<Rightarrow> js_truthy v | OnError e \<Rightarrow> False)"

definition is_error_event :: "call \<Rightarrow> bool" where
  "is_error_event c = (case c of OnChunk v \<Rightarrow> False | OnError e \<Rightarrow> True)"

text \<open>The places event of a turn: present exactly when the result list is not empty.\<close>

definition places_events :: "turn_env \<Rightarrow> place list \<Rightarrow> call list" where
  "places_events env places =
     (if places = [] then []
      else [OnChunk (JStr (places_chunk (stringify_places env) places))])"

text \<open>Steps 1 and 2 of a turn: the search with the extracted query.\<close>

definition turn_search :: "turn_env \<Rightarrow> string \<Rightarrow> latlng option \<Rightarrow> exn + search_result" where
  "turn_search env userQuery userLocation =
     searchPlaces (client env)
       (chat_search_options
          (extract_with_timeout (json_parse env) (extraction_reply env)
             (extraction_race env) userQuery)
          userLocation)"

section \<open>Concrete inputs\<close>

text \<open>
  Inputs for the examples below: a number library, a provider place with the given
  coordinates and nothing else, a client whose \<open>textSearch\<close> gives a fixed reply, a parser
  that knows one line, and a turn made of these.

  The sine and the cosine of the number library are a table. At the binary64 values of 82
  and of 90 degrees in radians, \<open>6445416618514801 / 2^52\<close> and \<open>884279719003555 / 2^49\<close>,
  and at their negatives, it holds what fdlibm, the library of V8, returns there:
  \<open>sin\<close> is \<open>0x1.fb046a930947ap-1\<close> and \<open>1\<close>, \<open>cos\<close> of the first is \<open>0x1.1d06c968d9e1ap-3\<close>.
  Elsewhere the sine is 0 and the cosine is 1, and the arctangent and the number text are
  constants: no example below reads them.
\<close>

definition example_lib :: jslib where
  "example_lib =
     \<lparr>lib_sin = (\<lambda>x. if x = 6445416618514801 / 2 ^ 52 then 4459770905381437 / 2 ^ 52
                     else if x = - (6445416618514801 / 2 ^ 52) then - (4459770905381437 / 2 ^ 52)
                     else if x = 884279719003555 / 2 ^ 49 then 1
                     else if x = - (884279719003555 / 2 ^ 49) then - 1
                     else 0),
      lib_cos = (\<lambda>x. if \<bar>x\<bar> = 6445416618514801 / 2 ^ 52 then 2507119702494989 / 2 ^ 54
                     else 1),
      lib_atan2 = (\<lambda>y x. 0),
      number_text = (\<lambda>x. ''1e+21'')\<rparr>"

definition place_at :: "real \<Rightarrow> real \<Rightarrow> raw_place" where
  "place_at la lo =
     \<lparr>raw_place_id = None, raw_name = None, raw_formatted_address = None, raw_vicinity = None,
      geometry = Some \<lparr>geo_location = Some \<lparr>loc_lat = Some la, loc_lng = Some lo\<rparr>\<rparr>,
      raw_rating = None, raw_user_ratings_total = None, raw_price_level = None,
      international_phone_number = None, raw_website = None, raw_opening_hours = None,
      raw_types = None, raw_photos = None, raw_permanently_closed = None\<rparr>"

definition client_replying :: "exn + text_search_response \<Rightarrow> places_client" where
  "client_replying reply =
     \<lparr>number_library = example_lib, template_string = (\<lambda>v. ''undefined''),
      api_key = Some ''key'', textSearch = (\<lambda>params. reply)\<rparr>"

definition parse_one :: "string \<Rightarrow> json \<Rightarrow> json \<Rightarrow> json option" where
  "parse_one line v x = (if x = JStr line then Some v else None)"

definition delta_frame :: "string \<Rightarrow> json" where
  "delta_frame d = JObj [(''message'', JObj [(''content'', JStr d)])]"

definition turn_with ::
  "exn + text_search_response \<Rightarrow> race \<Rightarrow> exn + body_stream \<Rightarrow> turn_env" where
  "turn_with search_reply race narration =
     \<lparr>json_parse = parse_one ''L'' (delta_frame ''Hi''),
      stringify_places = (\<lambda>ps. ''[...]''),
      client = client_replying search_reply,
      extraction_reply = Inl \<lparr>message = ''fetch failed'', response_status = None\<rparr>,
      extraction_race = race,
      narration_reply = narration\<rparr>"

definition user_says :: "string \<Rightarrow> chat_message list" where
  "user_says u = [\<lparr>role = ''user'', content = u\<rparr>]"

section \<open>Properties of binary64 rounding\<close>

text \<open>
  A value between two neighbouring powers of two rounds on the grid of that exponent, which
  is how the concrete values below are computed; and the rounding error is at most half
  the spacing.
\<close>

lemma quantum_eval:
  fixes k :: int
  assumes "2 powi k \<le> \<bar>x\<bar>" and "\<bar>x\<bar> < 2 powi (k + 1)" and "- 1022 \<le> k"
  shows "quantum x = 2 powi (k - 52)"
proof -
  have pos: "0 < \<bar>x\<bar>"
    using assms(1) by (smt (verit) zero_less_power_int)
  have p1: "(2::real) powr (of_int k) = 2 powi k"
    by (rule powr_real_of_int') simp_all
  have p2: "(2::real) powr (of_int (k + 1)) = 2 powi (k + 1)"
    by (rule powr_real_of_int') simp_all
  have "2 powr (of_int k) \<le> \<bar>x\<bar> \<and> \<bar>x\<bar> < 2 powr (of_int (k + 1))"
    using assms(1,2) by (simp only: p1 p2)
  then have "\<lfloor>log 2 \<bar>x\<bar>\<rfloor> = k"
    using pos floor_log_eq_powr_iff [of "\<bar>x\<bar>" 2 k] by simp
  moreover have "max (k - 52) (- 1074) = k - 52" using assms(3) by simp
  ultimately show ?thesis by (simp only: quantum_def)
qed

lemma nearest_double_eval:
  fixes k :: int
  assumes "2 powi k \<le> \<bar>x\<bar>" and "\<bar>x\<bar> < 2 powi (k + 1)" and "- 1022 \<le> k"
    and "round_half_even (x / 2 powi (k - 52)) = m"
  shows "nearest_double x = of_int m * 2 powi (k - 52)"
proof -
  have "x \<noteq> 0" using assms(1) by (smt (verit) zero_less_power_int)
  then show ?thesis
    using assms(4) by (simp add: nearest_double_def quantum_eval [OF assms(1-3)])
qed

lemma fl_eval:
  assumes "nearest_double x = y" and "\<bar>y\<bar> < 2 ^ 1024"
  shows "fl x = Fin y"
  using assms by (simp add: fl_def Let_def abs_less_iff not_le)

lemma fl_zero: "fl 0 = Fin 0"
  by (simp add: fl_def nearest_double_def)

lemma round_half_even_error: "\<bar>of_int (round_half_even r) - r\<bar> \<le> 1 / 2"
  unfolding round_half_even_def Let_def by (auto; linarith)


lemma quantum_pos: "0 < quantum x"
  by (simp add: quantum_def)

lemma nearest_double_error: "\<bar>nearest_double y - y\<bar> \<le> quantum y / 2"
proof (cases "y = 0")
  case True
  then show ?thesis using quantum_pos [of y] by (simp add: nearest_double_def)
next
  case False
  let ?q = "quantum y"
  have q: "0 < ?q" by (rule quantum_pos)
  have "nearest_double y - y = (of_int (round_half_even (y / ?q)) - y / ?q) * ?q"
    using False q by (simp add: nearest_double_def field_simps)
  then have "\<bar>nearest_double y - y\<bar> = \<bar>of_int (round_half_even (y / ?q)) - y / ?q\<bar> * ?q"
    using q by (simp add: abs_mult)
  also have "\<dots> \<le> 1 / 2 * ?q"
    using round_half_even_error [of "y / ?q"] q by (intro mult_right_mono) simp_all
  finally show ?thesis by simp
qed




section \<open>Properties of formatDistance\<close>

lemma show_nat_digit: "n < 10 \<Longrightarrow> show_nat n = [digit_char n]"
  by (subst show_nat.simps) simp
































section \<open>Properties of calculateDistance\<close>

text \<open>
  The steps of \<open>calculateDistance\<close> from (-82, -179) to (82, 1) and back, each one rounded
  to binary64.
\<close>

lemma rad_factor_nd: "nearest_double (884279719003555 / 2 ^ 48 / 180) = 5030569068109113 / 2 ^ 58"
proof -
  have "nearest_double (884279719003555 / 2 ^ 48 / 180) = of_int 5030569068109113 * 2 powi (- 6 - 52)"
    by (rule nearest_double_eval) (simp_all add: round_half_even_def Let_def)
  then show ?thesis by simp
qed

lemma rad_factor_fl: "fl (884279719003555 / 2 ^ 48 / 180) = Fin (5030569068109113 / 2 ^ 58)"
  by (rule fl_eval [OF rad_factor_nd]) simp

lemma rad_factor: "jdiv Math_PI (Fin 180) = Fin (5030569068109113 / 2 ^ 58)"
proof -
  have "jdiv Math_PI (Fin 180) = fl (884279719003555 / 2 ^ 48 / 180)"
    by (simp add: Math_PI_def)
  also have "\<dots> = Fin (5030569068109113 / 2 ^ 58)"
    by (simp only: rad_factor_fl)
  finally show ?thesis .
qed

lemma dlat_deg_nd: "nearest_double (82 + - (- 82)) = 164"
proof -
  have "nearest_double (82 + - (- 82)) = of_int 5770237022568448 * 2 powi (7 - 52)"
    by (rule nearest_double_eval) (simp_all add: round_half_even_def Let_def)
  then show ?thesis by simp
qed

lemma dlat_deg_fl: "fl (82 + - (- 82)) = Fin 164"
  by (rule fl_eval [OF dlat_deg_nd]) simp

lemma dlat_deg: "jsub (Fin 82) (Fin (- 82)) = Fin 164"
proof -
  have "jsub (Fin 82) (Fin (- 82)) = fl (82 + - (- 82))"
    by (simp only: jsub_def jneg.simps jadd.simps)
  also have "\<dots> = Fin 164"
    by (simp only: dlat_deg_fl)
  finally show ?thesis .
qed

lemma dlat_rad_nd: "nearest_double (164 * (5030569068109113 / 2 ^ 58)) = 6445416618514801 / 2 ^ 51"
proof -
  have "nearest_double (164 * (5030569068109113 / 2 ^ 58)) = of_int 6445416618514801 * 2 powi (1 - 52)"
    by (rule nearest_double_eval) (simp_all add: round_half_even_def Let_def)
  then show ?thesis by simp
qed

lemma dlat_rad_fl: "fl (164 * (5030569068109113 / 2 ^ 58)) = Fin (6445416618514801 / 2 ^ 51)"
  by (rule fl_eval [OF dlat_rad_nd]) simp

lemma dlat_rad: "jmul (Fin 164) (Fin (5030569068109113 / 2 ^ 58)) = Fin (6445416618514801 / 2 ^ 51)"
proof -
  have "jmul (Fin 164) (Fin (5030569068109113 / 2 ^ 58)) = fl (164 * (5030569068109113 / 2 ^ 58))"
    by (simp only: jmul.simps)
  also have "\<dots> = Fin (6445416618514801 / 2 ^ 51)"
    by (simp only: dlat_rad_fl)
  finally show ?thesis .
qed

lemma dlat_half_nd: "nearest_double ((6445416618514801 / 2 ^ 51) / 2) = 6445416618514801 / 2 ^ 52"
proof -
  have "nearest_double ((6445416618514801 / 2 ^ 51) / 2) = of_int 6445416618514801 * 2 powi (0 - 52)"
    by (rule nearest_double_eval) (simp_all add: round_half_even_def Let_def)
  then show ?thesis by simp
qed

lemma dlat_half_fl: "fl ((6445416618514801 / 2 ^ 51) / 2) = Fin (6445416618514801 / 2 ^ 52)"
  by (rule fl_eval [OF dlat_half_nd]) simp

lemma dlat_half: "jdiv (Fin (6445416618514801 / 2 ^ 51)) (Fin 2) = Fin (6445416618514801 / 2 ^ 52)"
proof -
  have "jdiv (Fin (6445416618514801 / 2 ^ 51)) (Fin 2) = fl ((6445416618514801 / 2 ^ 51) / 2)"
    by simp
  also have "\<dots> = Fin (6445416618514801 / 2 ^ 52)"
    by (simp only: dlat_half_fl)
  finally show ?thesis .
qed

lemma dlon_deg_nd: "nearest_double (1 + - (- 179)) = 180"
proof -
  have "nearest_double (1 + - (- 179)) = of_int 6333186975989760 * 2 powi (7 - 52)"
    by (rule nearest_double_eval) (simp_all add: round_half_even_def Let_def)
  then show ?thesis by simp
qed

lemma dlon_deg_fl: "fl (1 + - (- 179)) = Fin 180"
  by (rule fl_eval [OF dlon_deg_nd]) simp

lemma dlon_deg: "jsub (Fin 1) (Fin (- 179)) = Fin 180"
proof -
  have "jsub (Fin 1) (Fin (- 179)) = fl (1 + - (- 179))"
    by (simp only: jsub_def jneg.simps jadd.simps)
  also have "\<dots> = Fin 180"
    by (simp only: dlon_deg_fl)
  finally show ?thesis .
qed

lemma dlon_rad_nd: "nearest_double (180 * (5030569068109113 / 2 ^ 58)) = 884279719003555 / 2 ^ 48"
proof -
  have "nearest_double (180 * (5030569068109113 / 2 ^ 58)) = of_int 7074237752028440 * 2 powi (1 - 52)"
    by (rule nearest_double_eval) (simp_all add: round_half_even_def Let_def)
  then show ?thesis by simp
qed

lemma dlon_rad_fl: "fl (180 * (5030569068109113 / 2 ^ 58)) = Fin (884279719003555 / 2 ^ 48)"
  by (rule fl_eval [OF dlon_rad_nd]) simp

lemma dlon_rad: "jmul (Fin 180) (Fin (5030569068109113 / 2 ^ 58)) = Fin (884279719003555 / 2 ^ 48)"
proof -
  have "jmul (Fin 180) (Fin (5030569068109113 / 2 ^ 58)) = fl (180 * (5030569068109113 / 2 ^ 58))"
    by (simp only: jmul.simps)
  also have "\<dots> = Fin (884279719003555 / 2 ^ 48)"
    by (simp only: dlon_rad_fl)
  finally show ?thesis .
qed

lemma dlon_half_nd: "nearest_double ((884279719003555 / 2 ^ 48) / 2) = 884279719003555 / 2 ^ 49"
proof -
  have "nearest_double ((884279719003555 / 2 ^ 48) / 2) = of_int 7074237752028440 * 2 powi (0 - 52)"
    by (rule nearest_double_eval) (simp_all add: round_half_even_def Let_def)
  then show ?thesis by simp
qed

lemma dlon_half_fl: "fl ((884279719003555 / 2 ^ 48) / 2) = Fin (884279719003555 / 2 ^ 49)"
  by (rule fl_eval [OF dlon_half_nd]) simp

lemma dlon_half: "jdiv (Fin (884279719003555 / 2 ^ 48)) (Fin 2) = Fin (884279719003555 / 2 ^ 49)"
proof -
  have "jdiv (Fin (884279719003555 / 2 ^ 48)) (Fin 2) = fl ((884279719003555 / 2 ^ 48) / 2)"
    by simp
  also have "\<dots> = Fin (884279719003555 / 2 ^ 49)"
    by (simp only: dlon_half_fl)
  finally show ?thesis .
qed

lemma lat_south_rad_nd: "nearest_double ((- 82) * (5030569068109113 / 2 ^ 58)) = - (6445416618514801 / 2 ^ 52)"
proof -
  have "nearest_double ((- 82) * (5030569068109113 / 2 ^ 58)) = of_int (- 6445416618514801) * 2 powi (0 - 52)"
    by (rule nearest_double_eval) (simp_all add: round_half_even_def Let_def)
  then show ?thesis by simp
qed

lemma lat_south_rad_fl: "fl ((- 82) * (5030569068109113 / 2 ^ 58)) = Fin (- (6445416618514801 / 2 ^ 52))"
  by (rule fl_eval [OF lat_south_rad_nd]) simp

lemma lat_south_rad: "jmul (Fin (- 82)) (Fin (5030569068109113 / 2 ^ 58)) = Fin (- (6445416618514801 / 2 ^ 52))"
proof -
  have "jmul (Fin (- 82)) (Fin (5030569068109113 / 2 ^ 58)) = fl ((- 82) * (5030569068109113 / 2 ^ 58))"
    by (simp only: jmul.simps)
  also have "\<dots> = Fin (- (6445416618514801 / 2 ^ 52))"
    by (simp only: lat_south_rad_fl)
  finally show ?thesis .
qed

lemma lat_north_rad_nd: "nearest_double (82 * (5030569068109113 / 2 ^ 58)) = 6445416618514801 / 2 ^ 52"
proof -
  have "nearest_double (82 * (5030569068109113 / 2 ^ 58)) = of_int 6445416618514801 * 2 powi (0 - 52)"
    by (rule nearest_double_eval) (simp_all add: round_half_even_def Let_def)
  then show ?thesis by simp
qed

lemma lat_north_rad_fl: "fl (82 * (5030569068109113 / 2 ^ 58)) = Fin (6445416618514801 / 2 ^ 52)"
  by (rule fl_eval [OF lat_north_rad_nd]) simp

lemma lat_north_rad: "jmul (Fin 82) (Fin (5030569068109113 / 2 ^ 58)) = Fin (6445416618514801 / 2 ^ 52)"
proof -
  have "jmul (Fin 82) (Fin (5030569068109113 / 2 ^ 58)) = fl (82 * (5030569068109113 / 2 ^ 58))"
    by (simp only: jmul.simps)
  also have "\<dots> = Fin (6445416618514801 / 2 ^ 52)"
    by (simp only: lat_north_rad_fl)
  finally show ?thesis .
qed

lemma sin_sq_nd: "nearest_double ((4459770905381437 / 2 ^ 52) * (4459770905381437 / 2 ^ 52)) = 8832737443003841 / 2 ^ 53"
proof -
  have "nearest_double ((4459770905381437 / 2 ^ 52) * (4459770905381437 / 2 ^ 52)) = of_int 8832737443003841 * 2 powi (- 1 - 52)"
    by (rule nearest_double_eval) (simp_all add: round_half_even_def Let_def)
  then show ?thesis by simp
qed

lemma sin_sq_fl: "fl ((4459770905381437 / 2 ^ 52) * (4459770905381437 / 2 ^ 52)) = Fin (8832737443003841 / 2 ^ 53)"
  by (rule fl_eval [OF sin_sq_nd]) simp

lemma sin_sq: "jmul (Fin (4459770905381437 / 2 ^ 52)) (Fin (4459770905381437 / 2 ^ 52)) = Fin (8832737443003841 / 2 ^ 53)"
proof -
  have "jmul (Fin (4459770905381437 / 2 ^ 52)) (Fin (4459770905381437 / 2 ^ 52)) = fl ((4459770905381437 / 2 ^ 52) * (4459770905381437 / 2 ^ 52))"
    by (simp only: jmul.simps)
  also have "\<dots> = Fin (8832737443003841 / 2 ^ 53)"
    by (simp only: sin_sq_fl)
  finally show ?thesis .
qed

lemma cos_sq_nd: "nearest_double ((2507119702494989 / 2 ^ 54) * (2507119702494989 / 2 ^ 54)) = 2791388987794435 / 2 ^ 57"
proof -
  have "nearest_double ((2507119702494989 / 2 ^ 54) * (2507119702494989 / 2 ^ 54)) = of_int 5582777975588870 * 2 powi (- 6 - 52)"
    by (rule nearest_double_eval) (simp_all add: round_half_even_def Let_def)
  then show ?thesis by simp
qed

lemma cos_sq_fl: "fl ((2507119702494989 / 2 ^ 54) * (2507119702494989 / 2 ^ 54)) = Fin (2791388987794435 / 2 ^ 57)"
  by (rule fl_eval [OF cos_sq_nd]) simp

lemma cos_sq: "jmul (Fin (2507119702494989 / 2 ^ 54)) (Fin (2507119702494989 / 2 ^ 54)) = Fin (2791388987794435 / 2 ^ 57)"
proof -
  have "jmul (Fin (2507119702494989 / 2 ^ 54)) (Fin (2507119702494989 / 2 ^ 54)) = fl ((2507119702494989 / 2 ^ 54) * (2507119702494989 / 2 ^ 54))"
    by (simp only: jmul.simps)
  also have "\<dots> = Fin (2791388987794435 / 2 ^ 57)"
    by (simp only: cos_sq_fl)
  finally show ?thesis .
qed

lemma cos_sq_one_nd: "nearest_double ((2791388987794435 / 2 ^ 57) * 1) = 2791388987794435 / 2 ^ 57"
proof -
  have "nearest_double ((2791388987794435 / 2 ^ 57) * 1) = of_int 5582777975588870 * 2 powi (- 6 - 52)"
    by (rule nearest_double_eval) (simp_all add: round_half_even_def Let_def)
  then show ?thesis by simp
qed

lemma cos_sq_one_fl: "fl ((2791388987794435 / 2 ^ 57) * 1) = Fin (2791388987794435 / 2 ^ 57)"
  by (rule fl_eval [OF cos_sq_one_nd]) simp

lemma cos_sq_one: "jmul (Fin (2791388987794435 / 2 ^ 57)) (Fin 1) = Fin (2791388987794435 / 2 ^ 57)"
proof -
  have "jmul (Fin (2791388987794435 / 2 ^ 57)) (Fin 1) = fl ((2791388987794435 / 2 ^ 57) * 1)"
    by (simp only: jmul.simps)
  also have "\<dots> = Fin (2791388987794435 / 2 ^ 57)"
    by (simp only: cos_sq_one_fl)
  finally show ?thesis .
qed

lemma hav_term_nd: "nearest_double ((8832737443003841 / 2 ^ 53) + (2791388987794435 / 2 ^ 57)) = 4503599627370497 / 2 ^ 52"
proof -
  have "nearest_double ((8832737443003841 / 2 ^ 53) + (2791388987794435 / 2 ^ 57)) = of_int 4503599627370497 * 2 powi (0 - 52)"
    by (rule nearest_double_eval) (simp_all add: round_half_even_def Let_def)
  then show ?thesis by simp
qed

lemma hav_term_fl: "fl ((8832737443003841 / 2 ^ 53) + (2791388987794435 / 2 ^ 57)) = Fin (4503599627370497 / 2 ^ 52)"
  by (rule fl_eval [OF hav_term_nd]) simp

lemma hav_term: "jadd (Fin (8832737443003841 / 2 ^ 53)) (Fin (2791388987794435 / 2 ^ 57)) = Fin (4503599627370497 / 2 ^ 52)"
proof -
  have "jadd (Fin (8832737443003841 / 2 ^ 53)) (Fin (2791388987794435 / 2 ^ 57)) = fl ((8832737443003841 / 2 ^ 53) + (2791388987794435 / 2 ^ 57))"
    by (simp only: jadd.simps)
  also have "\<dots> = Fin (4503599627370497 / 2 ^ 52)"
    by (simp only: hav_term_fl)
  finally show ?thesis .
qed

lemma one_minus_term_nd: "nearest_double (1 + - (4503599627370497 / 2 ^ 52)) = - (1 / 2 ^ 52)"
proof -
  have "nearest_double (1 + - (4503599627370497 / 2 ^ 52)) = of_int (- 4503599627370496) * 2 powi (- 52 - 52)"
    by (rule nearest_double_eval) (simp_all add: round_half_even_def Let_def)
  then show ?thesis by simp
qed

lemma one_minus_term_fl: "fl (1 + - (4503599627370497 / 2 ^ 52)) = Fin (- (1 / 2 ^ 52))"
  by (rule fl_eval [OF one_minus_term_nd]) simp

lemma one_minus_term: "jsub (Fin 1) (Fin (4503599627370497 / 2 ^ 52)) = Fin (- (1 / 2 ^ 52))"
proof -
  have "jsub (Fin 1) (Fin (4503599627370497 / 2 ^ 52)) = fl (1 + - (4503599627370497 / 2 ^ 52))"
    by (simp only: jsub_def jneg.simps jadd.simps)
  also have "\<dots> = Fin (- (1 / 2 ^ 52))"
    by (simp only: one_minus_term_fl)
  finally show ?thesis .
qed

lemma dlat_deg_rev_nd: "nearest_double ((- 82) + - 82) = - 164"
proof -
  have "nearest_double ((- 82) + - 82) = of_int (- 5770237022568448) * 2 powi (7 - 52)"
    by (rule nearest_double_eval) (simp_all add: round_half_even_def Let_def)
  then show ?thesis by simp
qed

lemma dlat_deg_rev_fl: "fl ((- 82) + - 82) = Fin (- 164)"
  by (rule fl_eval [OF dlat_deg_rev_nd]) simp

lemma dlat_deg_rev: "jsub (Fin (- 82)) (Fin 82) = Fin (- 164)"
proof -
  have "jsub (Fin (- 82)) (Fin 82) = fl ((- 82) + - 82)"
    by (simp only: jsub_def jneg.simps jadd.simps)
  also have "\<dots> = Fin (- 164)"
    by (simp only: dlat_deg_rev_fl)
  finally show ?thesis .
qed

lemma dlat_rad_rev_nd: "nearest_double ((- 164) * (5030569068109113 / 2 ^ 58)) = - (6445416618514801 / 2 ^ 51)"
proof -
  have "nearest_double ((- 164) * (5030569068109113 / 2 ^ 58)) = of_int (- 6445416618514801) * 2 powi (1 - 52)"
    by (rule nearest_double_eval) (simp_all add: round_half_even_def Let_def)
  then show ?thesis by simp
qed

lemma dlat_rad_rev_fl: "fl ((- 164) * (5030569068109113 / 2 ^ 58)) = Fin (- (6445416618514801 / 2 ^ 51))"
  by (rule fl_eval [OF dlat_rad_rev_nd]) simp

lemma dlat_rad_rev: "jmul (Fin (- 164)) (Fin (5030569068109113 / 2 ^ 58)) = Fin (- (6445416618514801 / 2 ^ 51))"
proof -
  have "jmul (Fin (- 164)) (Fin (5030569068109113 / 2 ^ 58)) = fl ((- 164) * (5030569068109113 / 2 ^ 58))"
    by (simp only: jmul.simps)
  also have "\<dots> = Fin (- (6445416618514801 / 2 ^ 51))"
    by (simp only: dlat_rad_rev_fl)
  finally show ?thesis .
qed

lemma dlat_half_rev_nd: "nearest_double ((- (6445416618514801 / 2 ^ 51)) / 2) = - (6445416618514801 / 2 ^ 52)"
proof -
  have "nearest_double ((- (6445416618514801 / 2 ^ 51)) / 2) = of_int (- 6445416618514801) * 2 powi (0 - 52)"
    by (rule nearest_double_eval) (simp_all add: round_half_even_def Let_def)
  then show ?thesis by simp
qed

lemma dlat_half_rev_fl: "fl ((- (6445416618514801 / 2 ^ 51)) / 2) = Fin (- (6445416618514801 / 2 ^ 52))"
  by (rule fl_eval [OF dlat_half_rev_nd]) simp

lemma dlat_half_rev: "jdiv (Fin (- (6445416618514801 / 2 ^ 51))) (Fin 2) = Fin (- (6445416618514801 / 2 ^ 52))"
proof -
  have "jdiv (Fin (- (6445416618514801 / 2 ^ 51))) (Fin 2) = fl ((- (6445416618514801 / 2 ^ 51)) / 2)"
    by simp
  also have "\<dots> = Fin (- (6445416618514801 / 2 ^ 52))"
    by (simp only: dlat_half_rev_fl)
  finally show ?thesis .
qed

lemma dlon_deg_rev_nd: "nearest_double ((- 179) + - 1) = - 180"
proof -
  have "nearest_double ((- 179) + - 1) = of_int (- 6333186975989760) * 2 powi (7 - 52)"
    by (rule nearest_double_eval) (simp_all add: round_half_even_def Let_def)
  then show ?thesis by simp
qed

lemma dlon_deg_rev_fl: "fl ((- 179) + - 1) = Fin (- 180)"
  by (rule fl_eval [OF dlon_deg_rev_nd]) simp

lemma dlon_deg_rev: "jsub (Fin (- 179)) (Fin 1) = Fin (- 180)"
proof -
  have "jsub (Fin (- 179)) (Fin 1) = fl ((- 179) + - 1)"
    by (simp only: jsub_def jneg.simps jadd.simps)
  also have "\<dots> = Fin (- 180)"
    by (simp only: dlon_deg_rev_fl)
  finally show ?thesis .
qed

lemma dlon_rad_rev_nd: "nearest_double ((- 180) * (5030569068109113 / 2 ^ 58)) = - (884279719003555 / 2 ^ 48)"
proof -
  have "nearest_double ((- 180) * (5030569068109113 / 2 ^ 58)) = of_int (- 7074237752028440) * 2 powi (1 - 52)"
    by (rule nearest_double_eval) (simp_all add: round_half_even_def Let_def)
  then show ?thesis by simp
qed

lemma dlon_rad_rev_fl: "fl ((- 180) * (5030569068109113 / 2 ^ 58)) = Fin (- (884279719003555 / 2 ^ 48))"
  by (rule fl_eval [OF dlon_rad_rev_nd]) simp

lemma dlon_rad_rev: "jmul (Fin (- 180)) (Fin (5030569068109113 / 2 ^ 58)) = Fin (- (884279719003555 / 2 ^ 48))"
proof -
  have "jmul (Fin (- 180)) (Fin (5030569068109113 / 2 ^ 58)) = fl ((- 180) * (5030569068109113 / 2 ^ 58))"
    by (simp only: jmul.simps)
  also have "\<dots> = Fin (- (884279719003555 / 2 ^ 48))"
    by (simp only: dlon_rad_rev_fl)
  finally show ?thesis .
qed

lemma dlon_half_rev_nd: "nearest_double ((- (884279719003555 / 2 ^ 48)) / 2) = - (884279719003555 / 2 ^ 49)"
proof -
  have "nearest_double ((- (884279719003555 / 2 ^ 48)) / 2) = of_int (- 7074237752028440) * 2 powi (0 - 52)"
    by (rule nearest_double_eval) (simp_all add: round_half_even_def Let_def)
  then show ?thesis by simp
qed

lemma dlon_half_rev_fl: "fl ((- (884279719003555 / 2 ^ 48)) / 2) = Fin (- (884279719003555 / 2 ^ 49))"
  by (rule fl_eval [OF dlon_half_rev_nd]) simp

lemma dlon_half_rev: "jdiv (Fin (- (884279719003555 / 2 ^ 48))) (Fin 2) = Fin (- (884279719003555 / 2 ^ 49))"
proof -
  have "jdiv (Fin (- (884279719003555 / 2 ^ 48))) (Fin 2) = fl ((- (884279719003555 / 2 ^ 48)) / 2)"
    by simp
  also have "\<dots> = Fin (- (884279719003555 / 2 ^ 49))"
    by (simp only: dlon_half_rev_fl)
  finally show ?thesis .
qed

lemma sin_sq_rev_nd: "nearest_double ((- (4459770905381437 / 2 ^ 52)) * (- (4459770905381437 / 2 ^ 52))) = 8832737443003841 / 2 ^ 53"
proof -
  have "nearest_double ((- (4459770905381437 / 2 ^ 52)) * (- (4459770905381437 / 2 ^ 52))) = of_int 8832737443003841 * 2 powi (- 1 - 52)"
    by (rule nearest_double_eval) (simp_all add: round_half_even_def Let_def)
  then show ?thesis by simp
qed

lemma sin_sq_rev_fl: "fl ((- (4459770905381437 / 2 ^ 52)) * (- (4459770905381437 / 2 ^ 52))) = Fin (8832737443003841 / 2 ^ 53)"
  by (rule fl_eval [OF sin_sq_rev_nd]) simp

lemma sin_sq_rev: "jmul (Fin (- (4459770905381437 / 2 ^ 52))) (Fin (- (4459770905381437 / 2 ^ 52))) = Fin (8832737443003841 / 2 ^ 53)"
proof -
  have "jmul (Fin (- (4459770905381437 / 2 ^ 52))) (Fin (- (4459770905381437 / 2 ^ 52))) = fl ((- (4459770905381437 / 2 ^ 52)) * (- (4459770905381437 / 2 ^ 52)))"
    by (simp only: jmul.simps)
  also have "\<dots> = Fin (8832737443003841 / 2 ^ 53)"
    by (simp only: sin_sq_rev_fl)
  finally show ?thesis .
qed

lemma cos_sq_neg_nd: "nearest_double ((2791388987794435 / 2 ^ 57) * (- 1)) = - (2791388987794435 / 2 ^ 57)"
proof -
  have "nearest_double ((2791388987794435 / 2 ^ 57) * (- 1)) = of_int (- 5582777975588870) * 2 powi (- 6 - 52)"
    by (rule nearest_double_eval) (simp_all add: round_half_even_def Let_def)
  then show ?thesis by simp
qed

lemma cos_sq_neg_fl: "fl ((2791388987794435 / 2 ^ 57) * (- 1)) = Fin (- (2791388987794435 / 2 ^ 57))"
  by (rule fl_eval [OF cos_sq_neg_nd]) simp

lemma cos_sq_neg: "jmul (Fin (2791388987794435 / 2 ^ 57)) (Fin (- 1)) = Fin (- (2791388987794435 / 2 ^ 57))"
proof -
  have "jmul (Fin (2791388987794435 / 2 ^ 57)) (Fin (- 1)) = fl ((2791388987794435 / 2 ^ 57) * (- 1))"
    by (simp only: jmul.simps)
  also have "\<dots> = Fin (- (2791388987794435 / 2 ^ 57))"
    by (simp only: cos_sq_neg_fl)
  finally show ?thesis .
qed

lemma cos_sq_pos_nd: "nearest_double ((- (2791388987794435 / 2 ^ 57)) * (- 1)) = 2791388987794435 / 2 ^ 57"
proof -
  have "nearest_double ((- (2791388987794435 / 2 ^ 57)) * (- 1)) = of_int 5582777975588870 * 2 powi (- 6 - 52)"
    by (rule nearest_double_eval) (simp_all add: round_half_even_def Let_def)
  then show ?thesis by simp
qed

lemma cos_sq_pos_fl: "fl ((- (2791388987794435 / 2 ^ 57)) * (- 1)) = Fin (2791388987794435 / 2 ^ 57)"
  by (rule fl_eval [OF cos_sq_pos_nd]) simp

lemma cos_sq_pos: "jmul (Fin (- (2791388987794435 / 2 ^ 57))) (Fin (- 1)) = Fin (2791388987794435 / 2 ^ 57)"
proof -
  have "jmul (Fin (- (2791388987794435 / 2 ^ 57))) (Fin (- 1)) = fl ((- (2791388987794435 / 2 ^ 57)) * (- 1))"
    by (simp only: jmul.simps)
  also have "\<dots> = Fin (2791388987794435 / 2 ^ 57)"
    by (simp only: cos_sq_pos_fl)
  finally show ?thesis .
qed

lemma example_sin:
  "Math_sin example_lib (Fin (6445416618514801 / 2 ^ 52)) = Fin (4459770905381437 / 2 ^ 52)"
  "Math_sin example_lib (Fin (- (6445416618514801 / 2 ^ 52))) = Fin (- (4459770905381437 / 2 ^ 52))"
  "Math_sin example_lib (Fin (884279719003555 / 2 ^ 49)) = Fin 1"
  "Math_sin example_lib (Fin (- (884279719003555 / 2 ^ 49))) = Fin (- 1)"
  by (simp_all add: example_lib_def)

lemma example_cos:
  "Math_cos example_lib (Fin (6445416618514801 / 2 ^ 52)) = Fin (2507119702494989 / 2 ^ 54)"
  "Math_cos example_lib (Fin (- (6445416618514801 / 2 ^ 52))) = Fin (2507119702494989 / 2 ^ 54)"
  by (simp_all add: example_lib_def)

lemma atan2_nan: "Math_atan2 lib y NaN = NaN"
  by (cases y) simp_all

lemma jmul_nan: "jmul a NaN = NaN"
  by (cases a) simp_all

lemma sqrt_negative: "Math_sqrt (Fin (- (1 / 2 ^ 52))) = NaN"
  by simp

lemma antipodal_forward:
  "calculateDistance example_lib (Fin (- 82)) (Fin (- 179)) (Fin 82) (Fin 1) = NaN"
  unfolding calculateDistance_def Let_def toRad_def
  by (simp only: rad_factor dlat_deg dlat_rad dlat_half dlon_deg dlon_rad dlon_half
      lat_south_rad lat_north_rad example_sin example_cos sin_sq cos_sq cos_sq_one hav_term
      one_minus_term sqrt_negative atan2_nan jmul_nan)

lemma antipodal_backward:
  "calculateDistance example_lib (Fin 82) (Fin 1) (Fin (- 82)) (Fin (- 179)) = NaN"
  unfolding calculateDistance_def Let_def toRad_def
  by (simp only: rad_factor dlat_deg_rev dlat_rad_rev dlat_half_rev dlon_deg_rev dlon_rad_rev
      dlon_half_rev lat_south_rad lat_north_rad example_sin example_cos sin_sq_rev cos_sq
      cos_sq_neg cos_sq_pos hav_term one_minus_term sqrt_negative atan2_nan jmul_nan)

lemma antipodal_term:
  "jadd (jmul (Fin (4459770905381437 / 2 ^ 52)) (Fin (4459770905381437 / 2 ^ 52)))
        (jmul (jmul (jmul (Fin (2507119702494989 / 2 ^ 54)) (Fin (2507119702494989 / 2 ^ 54)))
                    (Fin 1)) (Fin 1)) =
   Fin (1 + 1 / 2 ^ 52)"
proof -
  have "(4503599627370497 / 2 ^ 52 :: real) = 1 + 1 / 2 ^ 52" by simp
  then show ?thesis by (simp only: sin_sq cos_sq cos_sq_one hav_term)
qed

text \<open>
  What holds of the two properties: negation commutes with the rounding, so with an odd
  sine the two orders compute the same value, and the two results are equal Numbers
  unless that value is NaN; and the distance of a point to itself is 0 when the cosine
  stays within \<open>[-1, 1]\<close>.
\<close>

lemma round_half_even_of_int: "round_half_even (of_int i) = i"
  by (simp add: round_half_even_def)

lemma round_half_even_minus: "round_half_even (- r) = - round_half_even r"
proof (cases "of_int \<lfloor>r\<rfloor> = r")
  case True
  then obtain i where i: "r = of_int i" by metis
  have "- r = of_int (- i)" by (simp add: i)
  then have "round_half_even (- r) = - i" by (simp only: round_half_even_of_int)
  then show ?thesis by (simp add: i round_half_even_of_int)
next
  case False
  define f where "f = \<lfloor>r\<rfloor>"
  define d where "d = r - of_int f"
  have d0: "0 < d" and d1: "d < 1" using False unfolding d_def f_def by linarith+
  have f': "\<lfloor>- r\<rfloor> = - f - 1"
  proof (rule floor_unique)
    show "of_int (- f - 1) \<le> - r" using d1 by (simp add: d_def)
    show "- r < of_int (- f - 1) + 1" using d0 by (simp add: d_def)
  qed
  have d': "- r - of_int (- f - 1) = 1 - d" by (simp add: d_def)
  have r1: "round_half_even r =
              (if d < 1 / 2 then f else if 1 / 2 < d then f + 1 else if even f then f else f + 1)"
    by (simp add: round_half_even_def Let_def f_def d_def)
  have r2: "round_half_even (- r) =
              (if 1 - d < 1 / 2 then - f - 1 else if 1 / 2 < 1 - d then - f
               else if even (- f - 1) then - f - 1 else - f)"
    unfolding round_half_even_def Let_def f' d' by simp
  show ?thesis
  proof (cases "d < 1 / 2")
    case True
    then show ?thesis by (simp add: r1 r2)
  next
    case False
    note nlt = this
    show ?thesis
    proof (cases "1 / 2 < d")
      case True
      then show ?thesis by (simp add: r1 r2)
    next
      case False
      with nlt have "d = 1 / 2" by simp
      then show ?thesis by (simp add: r1 r2)
    qed
  qed
qed

lemma quantum_minus: "quantum (- x) = quantum x"
  by (simp add: quantum_def)

lemma nearest_double_minus: "nearest_double (- x) = - nearest_double x"
  by (simp add: nearest_double_def quantum_minus round_half_even_minus)

lemma fl_minus: "fl (- x) = jneg (fl x)"
  by (simp add: fl_def Let_def nearest_double_minus)

lemma jneg_jneg: "jneg (jneg a) = a"
  by (cases a) simp_all

lemma jmul_commute: "jmul a b = jmul b a"
  by (cases a; cases b) (simp_all add: mult.commute)

lemma jmul_jneg_left: "jmul (jneg a) b = jneg (jmul a b)"
  by (cases a; cases b) (simp_all add: fl_minus)

lemma jmul_jneg_right: "jmul a (jneg b) = jneg (jmul a b)"
  by (simp only: jmul_commute [of a] jmul_jneg_left)

lemma jmul_jneg_both: "jmul (jneg a) (jneg a) = jmul a a"
  by (cases a) simp_all

lemma jdiv_jneg_left: "jdiv (jneg a) (Fin 2) = jneg (jdiv a (Fin 2))"
proof (cases a)
  case (Fin x)
  have "- x / 2 = - (x / 2)" by simp
  then show ?thesis using Fin by (simp add: fl_minus)
qed simp_all

lemma jsub_swap: "jsub (Fin b) (Fin a) = jneg (jsub (Fin a) (Fin b))"
proof -
  have "b + - a = - (a + - b)" by simp
  then show ?thesis by (simp only: jsub_def jneg.simps jadd.simps fl_minus)
qed

lemma toRad_jneg: "toRad (jneg v) = jneg (toRad v)"
  by (simp add: toRad_def jmul_jneg_left)

lemma Math_sin_jneg:
  assumes "\<And>v. lib_sin lib (- v) = - lib_sin lib v"
  shows "Math_sin lib (jneg a) = jneg (Math_sin lib a)"
  by (cases a) (simp_all add: assms)

lemma distance_same_value:
  assumes odd: "\<And>v. lib_sin lib (- v) = - lib_sin lib v"
  shows "calculateDistance lib (Fin lat1) (Fin lon1) (Fin lat2) (Fin lon2) =
         calculateDistance lib (Fin lat2) (Fin lon2) (Fin lat1) (Fin lon1)"
proof -
  have s: "jmul (Math_sin lib (jdiv (toRad (jsub (Fin b) (Fin a))) (Fin 2)))
                (Math_sin lib (jdiv (toRad (jsub (Fin b) (Fin a))) (Fin 2))) =
           jmul (Math_sin lib (jdiv (toRad (jsub (Fin a) (Fin b))) (Fin 2)))
                (Math_sin lib (jdiv (toRad (jsub (Fin a) (Fin b))) (Fin 2)))" for a b
    by (simp only: jsub_swap [of b a] toRad_jneg jdiv_jneg_left Math_sin_jneg [OF odd]
        jmul_jneg_both)
  have t: "jmul (jmul (jmul c1 c2) (jneg v)) (jneg v) = jmul (jmul (jmul c2 c1) v) v" for c1 c2 v
    by (simp only: jmul_jneg_left jmul_jneg_right jneg_jneg jmul_commute [of c1 c2])
  let ?w = "Math_sin lib (jdiv (toRad (jsub (Fin lon2) (Fin lon1))) (Fin 2))"
  let ?v = "Math_sin lib (jdiv (toRad (jsub (Fin lon1) (Fin lon2))) (Fin 2))"
  have wv: "?w = jneg ?v"
    by (simp only: jsub_swap [of lon2 lon1] toRad_jneg jdiv_jneg_left Math_sin_jneg [OF odd])
  have "jmul (jmul (jmul (Math_cos lib (toRad (Fin lat1))) (Math_cos lib (toRad (Fin lat2)))) ?w) ?w =
        jmul (jmul (jmul (Math_cos lib (toRad (Fin lat2))) (Math_cos lib (toRad (Fin lat1)))) ?v) ?v"
    by (simp only: wv t)
  then show ?thesis
    unfolding calculateDistance_def Let_def
    by (simp only: s [of lat2 lat1])
qed

lemma strict_equal_same: "strict_equal a a \<longleftrightarrow> a \<noteq> NaN"
  by (cases a) simp_all

lemma distance_symmetric_unless_nan:
  assumes "\<And>v. lib_sin lib (- v) = - lib_sin lib v"
    and "calculateDistance lib (Fin lat1) (Fin lon1) (Fin lat2) (Fin lon2) \<noteq> NaN"
  shows "strict_equal (calculateDistance lib (Fin lat1) (Fin lon1) (Fin lat2) (Fin lon2))
                      (calculateDistance lib (Fin lat2) (Fin lon2) (Fin lat1) (Fin lon1))"
  using distance_same_value [OF assms(1), of lat1 lon1 lat2 lon2, symmetric] assms(2)
  by (simp add: strict_equal_same)

lemma quantum_le: 
  assumes "y \<noteq> 0"
  shows "quantum y \<le> \<bar>y\<bar> + 1"
proof -
  define e where "e = \<lfloor>log 2 \<bar>y\<bar>\<rfloor>"
  have pos: "0 < \<bar>y\<bar>" using assms by simp
  have "of_int e \<le> log 2 \<bar>y\<bar>" unfolding e_def by simp
  then have "2 powr (of_int e) \<le> 2 powr (log 2 \<bar>y\<bar>)" by simp
  then have "2 powr (of_int e) \<le> \<bar>y\<bar>" using pos by simp
  moreover have "(2::real) powr (of_int e) = 2 powi e"
    by (rule powr_real_of_int') simp_all
  ultimately have le: "2 powi e \<le> \<bar>y\<bar>" by simp
  show ?thesis
  proof (cases "- 1074 \<le> e - 52")
    case True
    then have "max (e - 52) (- 1074) = e - 52" by (rule max_absorb1)
    then have "quantum y = 2 powi (e - 52)" by (simp only: quantum_def e_def)
    also have "\<dots> \<le> 2 powi e" by (intro power_int_increasing) simp_all
    finally show ?thesis using le by linarith
  next
    case False
    then have "max (e - 52) (- 1074) = - 1074" by (intro max_absorb2) linarith
    then have "quantum y = 2 powi (- 1074)" by (simp only: quantum_def e_def)
    also have "\<dots> \<le> (1::real)" by (simp add: power_int_minus_divide)
    finally show ?thesis using pos by linarith
  qed
qed

lemma nearest_double_bound: "\<bar>nearest_double y\<bar> \<le> 2 * \<bar>y\<bar> + 1"
proof (cases "y = 0")
  case True
  then show ?thesis by (simp add: nearest_double_def)
next
  case False
  from nearest_double_error [of y] quantum_le [OF False] show ?thesis by linarith
qed

lemma fl_finite:
  assumes "\<bar>y\<bar> \<le> 2 ^ 1020"
  shows "fl y = Fin (nearest_double y)"
proof (rule fl_eval)
  have "\<bar>nearest_double y\<bar> \<le> 2 * 2 ^ 1020 + 1"
    using nearest_double_bound [of y] assms by linarith
  also have "\<dots> < (2::real) ^ 1024" by simp
  finally show "\<bar>nearest_double y\<bar> < 2 ^ 1024" .
qed simp

lemma one_nd: "nearest_double 1 = 1"
proof -
  have "nearest_double 1 = of_int 4503599627370496 * 2 powi (0 - 52)"
    by (rule nearest_double_eval) (simp_all add: round_half_even_def Let_def)
  then show ?thesis by simp
qed

lemma fl_one: "fl 1 = Fin 1"
  by (rule fl_eval [OF one_nd]) simp

lemma toRad_finite:
  assumes "\<bar>la\<bar> < 2 ^ 1024"
  shows "\<exists>r. toRad (Fin la) = Fin r"
proof -
  have "\<bar>la * (5030569068109113 / 2 ^ 58)\<bar> = \<bar>la\<bar> * (5030569068109113 / 2 ^ 58)"
    by (simp add: abs_mult)
  also have "\<dots> \<le> 2 ^ 1024 * (5030569068109113 / 2 ^ 58)"
    using assms by (intro mult_right_mono) simp_all
  also have "\<dots> \<le> (2::real) ^ 1020" by simp
  finally have "fl (la * (5030569068109113 / 2 ^ 58)) =
                Fin (nearest_double (la * (5030569068109113 / 2 ^ 58)))"
    by (rule fl_finite)
  then show ?thesis by (simp only: toRad_def rad_factor jmul.simps) blast
qed

lemma cos_squared_finite:
  assumes "\<And>v. \<bar>lib_cos lib v\<bar> \<le> 1"
  shows "\<exists>r. jmul (Math_cos lib (Fin t)) (Math_cos lib (Fin t)) = Fin r"
proof -
  obtain c where c: "Math_cos lib (Fin t) = Fin c" "\<bar>c\<bar> \<le> 1"
    using assms [of t] by (cases "t = 0") simp_all
  have "\<bar>c * c\<bar> \<le> 1 * 1"
    unfolding abs_mult using c(2) by (intro mult_mono) simp_all
  then have "\<bar>c * c\<bar> \<le> 2 ^ 1020"
    by (rule order_trans) simp
  then have "fl (c * c) = Fin (nearest_double (c * c))" by (rule fl_finite)
  then have "jmul (Math_cos lib (Fin t)) (Math_cos lib (Fin t)) = Fin (nearest_double (c * c))"
    by (simp only: c(1) jmul.simps)
  then show ?thesis by blast
qed

lemma distance_self:
  assumes cosb: "\<And>v. \<bar>lib_cos lib v\<bar> \<le> 1" and fin: "\<bar>la\<bar> < 2 ^ 1024"
  shows "calculateDistance lib (Fin la) (Fin lo) (Fin la) (Fin lo) = Fin 0"
proof -
  have z: "jsub (Fin u) (Fin u) = Fin 0" for u
    by (simp add: jsub_def fl_zero)
  have tz: "toRad (Fin 0) = Fin 0"
    by (simp add: toRad_def rad_factor fl_zero)
  have hz: "jdiv (Fin 0) (Fin 2) = Fin 0" by (simp add: fl_zero)
  have sz: "Math_sin lib (Fin 0) = Fin 0" by simp
  have zz: "jmul (Fin 0) (Fin 0) = Fin 0" by (simp add: fl_zero)
  from toRad_finite [OF fin] obtain t where t: "toRad (Fin la) = Fin t" by blast
  from cos_squared_finite [OF cosb, of t] obtain r
    where r: "jmul (Math_cos lib (Fin t)) (Math_cos lib (Fin t)) = Fin r" by blast
  have rz: "jmul (Fin r) (Fin 0) = Fin 0" by (simp add: fl_zero)
  have a: "jadd (Fin 0) (Fin 0) = Fin 0" by (simp add: fl_zero)
  have q0: "Math_sqrt (Fin 0) = Fin 0" by (simp add: fl_zero)
  have m1: "jsub (Fin 1) (Fin 0) = Fin 1" by (simp add: jsub_def fl_one)
  have q1: "Math_sqrt (Fin 1) = Fin 1" by (simp add: fl_one)
  have at: "Math_atan2 lib (Fin 0) (Fin 1) = Fin 0" by simp
  have fz: "jmul (Fin 2) (Fin 0) = Fin 0" "jmul (Fin 6371) (Fin 0) = Fin 0"
    by (simp_all add: fl_zero)
  show ?thesis
    unfolding calculateDistance_def Let_def
    by (simp only: z tz hz sz zz t r rz a q0 m1 q1 at fz)
qed

text \<open>
  Claim C8 says that \<open>distance(a, b)\<close> equals \<open>distance(b, a)\<close> for every pair of points, the
  result being a distance in kilometers. For the nearly antipodal points (-82, -179) and
  (82, 1) the rounded haversine term is \<open>1 + 2^-52\<close>, above 1; the code does not clamp it,
  so \<open>Math.sqrt(1 - a)\<close> is NaN and NaN is the result in both orders. The two results are
  not equal, since NaN equals nothing, and neither is a distance.
\<close>

theorem haversine_antipodal_nan:
  "calculateDistance example_lib (Fin (- 82)) (Fin (- 179)) (Fin 82) (Fin 1) = NaN \<and>
   calculateDistance example_lib (Fin 82) (Fin 1) (Fin (- 82)) (Fin (- 179)) = NaN \<and>
   \<not> strict_equal (calculateDistance example_lib (Fin (- 82)) (Fin (- 179)) (Fin 82) (Fin 1))
                    (calculateDistance example_lib (Fin 82) (Fin 1) (Fin (- 82)) (Fin (- 179)))"
  by (simp only: antipodal_forward antipodal_backward strict_equal.simps) simp

section \<open>Properties of the chat orchestrator and the places gateway\<close>

lemma foldl_append_only:
  assumes step: "\<And>s x. f s x = s @ f [] x"
  shows "foldl f s xs = s @ foldl f [] xs"
proof (induction xs arbitrary: s)
  case Nil
  show ?case by simp
next
  case (Cons x xs)
  have "foldl f s (x # xs) = foldl f (f s x) xs" by simp
  also have "\<dots> = f s x @ foldl f [] xs" by (rule Cons.IH)
  also have "\<dots> = s @ (f [] x @ foldl f [] xs)" by (subst step) simp
  also have "f [] x @ foldl f [] xs = foldl f (f [] x) xs" by (rule Cons.IH [symmetric])
  finally show ?case by simp
qed

lemma handle_line_record:
  "handle_line parse record_chunk tr line = tr @ handle_line parse record_chunk [] line"
  by (simp add: handle_line_def record_chunk_def split: option.splits sum.splits)

lemma handle_chunk_record:
  "handle_chunk parse record_chunk tr chunk = tr @ handle_chunk parse record_chunk [] chunk"
  unfolding handle_chunk_def
  by (rule foldl_append_only) (rule handle_line_record)

lemma narration_record:
  "fst (streamLLMResponse parse reply record_chunk tr) =
   tr @ fst (streamLLMResponse parse reply record_chunk [])"
proof (cases reply)
  case (Inl e)
  then show ?thesis by (simp add: streamLLMResponse_def)
next
  case (Inr body)
  have "foldl (handle_chunk parse record_chunk) tr (chunks body) =
        tr @ foldl (handle_chunk parse record_chunk) [] (chunks body)"
    by (rule foldl_append_only) (rule handle_chunk_record)
  with Inr show ?thesis by (simp add: streamLLMResponse_def)
qed

lemma foldl_all:
  assumes step: "\<And>s x. list_all P s \<Longrightarrow> list_all P (f s x)"
  shows "list_all P s \<Longrightarrow> list_all P (foldl f s xs)"
  by (induction xs arbitrary: s) (simp_all add: step)

lemma handle_line_deltas:
  "list_all is_content_delta tr \<Longrightarrow> list_all is_content_delta (handle_line parse record_chunk tr line)"
  by (simp add: handle_line_def record_chunk_def is_content_delta_def
      split: option.splits sum.splits)

lemma handle_chunk_deltas:
  "list_all is_content_delta tr \<Longrightarrow> list_all is_content_delta (handle_chunk parse record_chunk tr chunk)"
  unfolding handle_chunk_def by (rule foldl_all) (rule handle_line_deltas)

lemma narration_calls_deltas: "list_all is_content_delta (narration_calls env)"
proof (cases "narration_reply env")
  case (Inl e)
  then show ?thesis by (simp add: narration_calls_def streamLLMResponse_def)
next
  case (Inr body)
  have "list_all is_content_delta (foldl (handle_chunk (json_parse env) record_chunk) [] (chunks body))"
    by (rule foldl_all) (simp_all add: handle_chunk_deltas)
  with Inr show ?thesis by (simp add: narration_calls_def streamLLMResponse_def)
qed

lemma narration_calls_rejected:
  "narration_reply env = Inl e \<Longrightarrow> narration_calls env = []"
  by (simp add: narration_calls_def streamLLMResponse_def)

lemma emit_record:
  "emit_places_and_narrate env ps record_chunk tr =
   (tr @ places_events env ps @ narration_calls env @ [OnChunk (JStr [])], None)"
proof -
  have n: "fst (streamLLMResponse (json_parse env) (narration_reply env) record_chunk s) =
           s @ narration_calls env" for s
    unfolding narration_calls_def by (rule narration_record)
  show ?thesis
    by (simp add: emit_places_and_narrate_def places_events_def n record_chunk_def)
qed

lemma successful_search_trace:
  assumes "last_user_message messages = Some m"
    and "turn_search env (content m) loc = Inr r"
    and "error r = None"
  shows "chat_turn env messages loc =
         (places_events env (results r) @ narration_calls env @ [OnChunk (JStr [])], None)"
  using assms
  by (simp add: chat_turn_def streamChatWithTools_def chat_try_def turn_search_def emit_record)

lemma gateway_error_trace:
  assumes "last_user_message messages = Some m"
    and "turn_search env (content m) loc = Inr r"
    and "error r = Some err" and "err \<noteq> []"
  shows "chat_turn env messages loc = ([OnError err], None)"
  using assms
  by (simp add: chat_turn_def streamChatWithTools_def chat_try_def turn_search_def record_error_def)

lemma gateway_throw_trace:
  assumes "last_user_message messages = Some m"
    and "turn_search env (content m) loc = Inl e"
  shows "chat_turn env messages loc = ([OnError (message e)], Some e)"
  using assms
  by (simp add: chat_turn_def streamChatWithTools_def chat_try_def turn_search_def record_error_def)

lemma terminal_not_delta: "OnChunk (JStr []) \<notin> set (narration_calls env)"
proof
  assume "OnChunk (JStr []) \<in> set (narration_calls env)"
  with narration_calls_deltas [of env] have "is_content_delta (OnChunk (JStr []))"
    by (simp add: list_all_iff)
  then show False by (simp add: is_content_delta_def)
qed

lemma no_error_in_deltas: "list_all is_content_delta xs \<Longrightarrow> \<not> list_ex is_error_event xs"
  by (induction xs) (auto simp: is_content_delta_def is_error_event_def split: call.splits)

text \<open>
  Claim C1. In a turn whose places search succeeds, the output stream is the places
  event (exactly one, at the head, when the result list is not empty; none when it is
  empty), then the narration's content deltas, then the empty terminal content delta,
  which is the last event and is none of the deltas.
\<close>

theorem chat_turn_stream_order:
  assumes "last_user_message messages = Some m"
    and "turn_search env (content m) loc = Inr r"
    and "error r = None"
  shows "fst (chat_turn env messages loc) =
           places_events env (results r) @ narration_calls env @ [OnChunk (JStr [])] \<and>
         (results r \<noteq> [] \<longrightarrow>
            places_events env (results r) =
              [OnChunk (JStr (places_chunk (stringify_places env) (results r)))]) \<and>
         (results r = [] \<longrightarrow> places_events env (results r) = []) \<and>
         list_all is_content_delta (narration_calls env) \<and>
         OnChunk (JStr []) \<notin> set (narration_calls env) \<and>
         last (fst (chat_turn env messages loc)) = OnChunk (JStr [])"
  using successful_search_trace [OF assms] narration_calls_deltas [of env] terminal_not_delta [of env]
  by (simp add: places_events_def)

lemma ex_user: "last_user_message (user_says u) = Some \<lparr>role = ''user'', content = u\<rparr>"
  by (simp add: last_user_message_def user_says_def)

lemma ex_search_ok:
  "turn_search (turn_with (Inr \<lparr>data_results = Some rs\<rparr>) race narr) u loc =
   Inr \<lparr>results = map (map_place example_lib loc) (take 20 rs), search_center = loc, error = None\<rparr>"
  by (simp add: turn_search_def searchPlaces_def turn_with_def client_replying_def
      chat_search_options_def)

lemma ex_search_fail:
  "turn_search (turn_with (Inl e) race narr) u loc =
   (if response_status e = Some 403
    then Inr \<lparr>results = [], search_center = None,
              error = Some ''Google Maps API key issue - check enabled APIs''\<rparr>
    else Inl e)"
  by (simp add: turn_search_def searchPlaces_def turn_with_def client_replying_def)

lemma ex_narration:
  "narration_calls (turn_with s race (Inr \<lparr>chunks = [''L''], failure = f\<rparr>)) = [OnChunk (JStr ''Hi'')]"
  by (simp add: narration_calls_def streamLLMResponse_def turn_with_def handle_chunk_def
      trim_nonempty_def js_whitespace_def handle_line_def parse_one_def delta_frame_def
      message_content_def record_chunk_def)

theorem chat_turn_stream_order_witness:
  "fst (chat_turn (turn_with (Inr \<lparr>data_results = Some [place_at 1 2]\<rparr>) ExtractorFirst
                     (Inr \<lparr>chunks = [''L''], failure = None\<rparr>))
         (user_says ''coffee'') None) =
   [OnChunk (JStr ''{\"type\":\"places\",\"data\":[...]}''), OnChunk (JStr ''Hi''), OnChunk (JStr [])]"
proof -
  let ?env = "turn_with (Inr \<lparr>data_results = Some [place_at 1 2]\<rparr>) ExtractorFirst
                (Inr \<lparr>chunks = [''L''], failure = None\<rparr>)"
  let ?m = "\<lparr>role = ''user'', content = ''coffee''\<rparr>"
  let ?r = "\<lparr>results = map (map_place example_lib None) (take 20 [place_at 1 2]),
             search_center = None, error = None\<rparr>"
  have u: "last_user_message (user_says ''coffee'') = Some ?m"
    by (rule ex_user)
  have s: "turn_search ?env (content ?m) None = Inr ?r"
    by (rule ex_search_ok)
  have e: "error ?r = None" by simp
  have pe: "places_events ?env (results ?r) =
            [OnChunk (JStr ''{\"type\":\"places\",\"data\":[...]}'')]"
    by (simp add: places_events_def places_chunk_def turn_with_def)
  have na: "narration_calls ?env = [OnChunk (JStr ''Hi'')]"
    by (rule ex_narration)
  from chat_turn_stream_order [OF u s e]
  have "fst (chat_turn ?env (user_says ''coffee'') None) =
        places_events ?env (results ?r) @ narration_calls ?env @ [OnChunk (JStr [])]"
    by (rule conjunct1)
  then show ?thesis by (simp only: pe na append.simps)
qed

text \<open>
  Claim C4. In a turn in which the places gateway returns an error, the output stream is
  exactly one error event: no places event, no content delta and no empty terminal delta
  follow it, and the call returns.
\<close>

theorem chat_turn_gateway_error_only:
  assumes "last_user_message messages = Some m"
    and "turn_search env (content m) loc = Inr r"
    and "error r = Some err" and "err \<noteq> []"
  shows "chat_turn env messages loc = ([OnError err], None)"
  using assms by (rule gateway_error_trace)

theorem chat_turn_gateway_error_only_witness:
  "chat_turn (turn_with (Inl \<lparr>message = ''Forbidden'', response_status = Some 403\<rparr>) ExtractorFirst
                (Inr \<lparr>chunks = [''L''], failure = None\<rparr>))
     (user_says ''coffee'') None =
   ([OnError ''Google Maps API key issue - check enabled APIs''], None)"
proof -
  let ?env = "turn_with (Inl \<lparr>message = ''Forbidden'', response_status = Some 403\<rparr>) ExtractorFirst
                (Inr \<lparr>chunks = [''L''], failure = None\<rparr>)"
  let ?m = "\<lparr>role = ''user'', content = ''coffee''\<rparr>"
  let ?r = "\<lparr>results = [], search_center = None,
             error = Some ''Google Maps API key issue - check enabled APIs''\<rparr>"
  have u: "last_user_message (user_says ''coffee'') = Some ?m"
    by (rule ex_user)
  have s: "turn_search ?env (content ?m) None = Inr ?r"
    by (simp add: ex_search_fail)
  have e: "error ?r = Some ''Google Maps API key issue - check enabled APIs''" by simp
  have n: "''Google Maps API key issue - check enabled APIs'' \<noteq> []" by simp
  show ?thesis by (rule chat_turn_gateway_error_only [OF u s e n])
qed

text \<open>
  Claim C5. In a turn whose places search succeeds and whose narration call fails (the
  request rejects, as on the timeout's abort or a transport error, or a read of the body
  rejects), the failure is swallowed: the call returns, no error event is emitted, and
  the stream still ends with the empty terminal content delta, after the places event
  when places were found. When the request itself rejects, the stream is the places
  event and the terminal delta only.
\<close>

theorem chat_turn_narration_failure:
  assumes "last_user_message messages = Some m"
    and "turn_search env (content m) loc = Inr r"
    and "error r = None"
    and "narration_reply env = Inl e \<or> (\<exists>b. narration_reply env = Inr b \<and> failure b = Some e)"
  shows "snd (chat_turn env messages loc) = None \<and>
         \<not> list_ex is_error_event (fst (chat_turn env messages loc)) \<and>
         fst (chat_turn env messages loc) =
           places_events env (results r) @ narration_calls env @ [OnChunk (JStr [])] \<and>
         (results r \<noteq> [] \<longrightarrow>
            places_events env (results r) =
              [OnChunk (JStr (places_chunk (stringify_places env) (results r)))]) \<and>
         (narration_reply env = Inl e \<longrightarrow>
            fst (chat_turn env messages loc) =
              places_events env (results r) @ [OnChunk (JStr [])])"
proof -
  have shape: "chat_turn env messages loc =
        (places_events env (results r) @ narration_calls env @ [OnChunk (JStr [])], None)"
    using assms(1-3) by (rule successful_search_trace)
  have "\<not> list_ex is_error_event (narration_calls env)"
    using narration_calls_deltas [of env] by (rule no_error_in_deltas)
  then have "\<not> list_ex is_error_event
               (places_events env (results r) @ narration_calls env @ [OnChunk (JStr [])])"
    by (simp add: places_events_def is_error_event_def)
  with shape show ?thesis
    by (simp add: places_events_def narration_calls_rejected)
qed

theorem chat_turn_narration_failure_witness:
  "chat_turn (turn_with (Inr \<lparr>data_results = Some [place_at 1 2, place_at 3 4]\<rparr>) ExtractorFirst
                (Inl \<lparr>message = ''This operation was aborted'', response_status = None\<rparr>))
     (user_says ''coffee'') None =
   ([OnChunk (JStr ''{\"type\":\"places\",\"data\":[...]}''), OnChunk (JStr [])], None)"
proof -
  let ?x = "\<lparr>message = ''This operation was aborted'', response_status = None\<rparr>"
  let ?env = "turn_with (Inr \<lparr>data_results = Some [place_at 1 2, place_at 3 4]\<rparr>) ExtractorFirst
                (Inl ?x)"
  let ?m = "\<lparr>role = ''user'', content = ''coffee''\<rparr>"
  let ?r = "\<lparr>results = map (map_place example_lib None) (take 20 [place_at 1 2, place_at 3 4]),
             search_center = None, error = None\<rparr>"
  have u: "last_user_message (user_says ''coffee'') = Some ?m"
    by (rule ex_user)
  have s: "turn_search ?env (content ?m) None = Inr ?r"
    by (rule ex_search_ok)
  have e: "error ?r = None" by simp
  have f: "narration_reply ?env = Inl ?x \<or> (\<exists>b. narration_reply ?env = Inr b \<and> failure b = Some ?x)"
    by (simp add: turn_with_def)
  have f1: "narration_reply ?env = Inl ?x" by (simp add: turn_with_def)
  have pe: "places_events ?env (results ?r) =
            [OnChunk (JStr ''{\"type\":\"places\",\"data\":[...]}'')]"
    by (simp add: places_events_def places_chunk_def turn_with_def)
  from chat_turn_narration_failure [OF u s e f] f1
  have "snd (chat_turn ?env (user_says ''coffee'') None) = None"
    and "fst (chat_turn ?env (user_says ''coffee'') None) =
           places_events ?env (results ?r) @ [OnChunk (JStr [])]"
    by blast+
  then show ?thesis by (simp only: pe append.simps prod_eq_iff fst_conv snd_conv)
qed

text \<open>
  Claim C6. When the provider call fails with HTTP status 403, \<open>searchPlaces\<close> returns
  an empty result list with an explanatory error string and does not throw; every other
  failure of the provider call is rethrown to the caller.
\<close>

theorem searchPlaces_error_policy:
  assumes "textSearch c (build_search_params c opts) = Inl e"
  shows "(response_status e = Some 403 \<longrightarrow>
            searchPlaces c opts =
              Inr \<lparr>results = [], search_center = None,
                   error = Some ''Google Maps API key issue - check enabled APIs''\<rparr>) \<and>
         (response_status e \<noteq> Some 403 \<longrightarrow> searchPlaces c opts = Inl e)"
  using assms by (simp add: searchPlaces_def)

theorem searchPlaces_error_policy_witness:
  "searchPlaces (client_replying (Inl \<lparr>message = ''Forbidden'', response_status = Some 403\<rparr>))
     (chat_search_options [] None) =
     Inr \<lparr>results = [], search_center = None,
          error = Some ''Google Maps API key issue - check enabled APIs''\<rparr> \<and>
   searchPlaces (client_replying (Inl \<lparr>message = ''Server error'', response_status = Some 500\<rparr>))
     (chat_search_options [] None) =
     Inl \<lparr>message = ''Server error'', response_status = Some 500\<rparr> \<and>
   searchPlaces (client_replying (Inl \<lparr>message = ''ECONNRESET'', response_status = None\<rparr>))
     (chat_search_options [] None) =
     Inl \<lparr>message = ''ECONNRESET'', response_status = None\<rparr>"
proof -
  have h: "textSearch (client_replying (Inl x))
             (build_search_params (client_replying (Inl x)) (chat_search_options [] None)) = Inl x"
    for x by (simp add: client_replying_def)
  from searchPlaces_error_policy [OF h [of "\<lparr>message = ''Forbidden'', response_status = Some 403\<rparr>"]]
       searchPlaces_error_policy [OF h [of "\<lparr>message = ''Server error'', response_status = Some 500\<rparr>"]]
       searchPlaces_error_policy [OF h [of "\<lparr>message = ''ECONNRESET'', response_status = None\<rparr>"]]
  show ?thesis by simp
qed

section \<open>Properties of the intent extractor and of place records\<close>

lemma extractor_failures_fall_back:
  "extractLocationIntent parse (Inl e) u = fallback_intent u"
  "\<not> ok resp \<Longrightarrow> extractLocationIntent parse (Inr resp) u = fallback_intent u"
  "json_body resp = None \<Longrightarrow> extractLocationIntent parse (Inr resp) u = fallback_intent u"
  "message_content body = Inr (Some c) \<Longrightarrow> parse c = None \<Longrightarrow> json_body resp = Some body \<Longrightarrow>
     extractLocationIntent parse (Inr resp) u = fallback_intent u"
  by (simp_all add: extractLocationIntent_def)

lemma extractor_first_failures:
  "extract_with_timeout parse (Inl e) ExtractorFirst u = fallback_intent u"
  by (simp add: extract_with_timeout_def extractLocationIntent_def)

lemma timeout_query_is_utterance:
  "opt_query (chat_search_options (extract_with_timeout parse fetched TimerFirst u) loc) =
   Some (JStr u)"
  by (simp add: chat_search_options_def extract_with_timeout_def)

text \<open>
  Claim C2 says that after every failure of intent extraction, the timeout included, the
  orchestrator goes on with the intent \<open>{query: utterance, location: "near me",
  formatted_query: utterance}\<close>. When the timer wins the race the code goes on with an
  intent that has no \<open>location\<close>; the fallback of the extractor itself has it.
\<close>

theorem timeout_fallback_omits_location:
  "extract_with_timeout parse fetched TimerFirst u =
     [(''query'', JStr u), (''formatted_query'', JStr u)] \<and>
   map_of (extract_with_timeout parse fetched TimerFirst u) ''location'' = None \<and>
   map_of (fallback_intent u) ''location'' = Some (JStr ''near me'') \<and>
   extract_with_timeout parse fetched TimerFirst u \<noteq> fallback_intent u"
  by (simp add: extract_with_timeout_def fallback_intent_def)

lemma map_place_fields:
  "distance_km (map_place lib u p) = place_distance lib u p"
  "distance_text (map_place lib u p) =
     (case place_distance lib u p of None \<Rightarrow> None | Some d \<Rightarrow> Some (formatDistance lib d))"
  "place_lat (map_place lib u p) = raw_lat p"
  "place_lng (map_place lib u p) = raw_lng p"
  by (simp_all add: map_place_def Let_def)

lemma distance_present_iff:
  "distance_km (map_place lib u p) \<noteq> None \<longleftrightarrow>
   (\<exists>orig plat plng. u = Some orig \<and> lat orig \<noteq> 0 \<and> lng orig \<noteq> 0 \<and>
      raw_lat p = Some plat \<and> plat \<noteq> 0 \<and> raw_lng p = Some plng \<and> plng \<noteq> 0)"
  by (auto simp: map_place_fields place_distance_def num_truthy_def split: option.splits)

lemma distance_text_with_km:
  "distance_text (map_place lib u p) = None \<longleftrightarrow> distance_km (map_place lib u p) = None"
  by (simp add: map_place_fields split: option.splits)

lemma no_geometry_no_distance:
  "geometry p = None \<Longrightarrow>
   distance_km (map_place lib u p) = None \<and> distance_text (map_place lib u p) = None"
  by (simp add: map_place_fields place_distance_def num_truthy_def raw_lat_def split: option.splits)

lemma same_point_distance:
  "distance_km (map_place example_lib (Some \<lparr>lat = 1, lng = 2\<rparr>) (place_at 1 2)) = Some (Fin 0) \<and>
   distance_text (map_place example_lib (Some \<lparr>lat = 1, lng = 2\<rparr>) (place_at 1 2)) = Some ''0m''"
proof -
  have c: "\<bar>lib_cos example_lib v\<bar> \<le> 1" for v
    by (simp add: example_lib_def)
  have d: "calculateDistance example_lib (Fin 1) (Fin 2) (Fin 1) (Fin 2) = Fin 0"
    by (rule distance_self [OF c]) simp
  have p: "place_distance example_lib (Some \<lparr>lat = 1, lng = 2\<rparr>) (place_at 1 2) = Some (Fin 0)"
    by (simp add: place_distance_def num_truthy_def raw_lat_def raw_lng_def place_at_def d)
  have t: "formatDistance example_lib (Fin 0) = ''0m''"
    by (simp add: formatDistance_def fl_zero show_int_def show_nat_digit digit_char_def)
  show ?thesis by (simp add: map_place_fields p t)
qed

lemma nan_text: "formatDistance lib NaN = ''NaNkm''"
  by (simp add: formatDistance_def)

lemma antipodal_place_distance:
  "distance_km (map_place example_lib (Some \<lparr>lat = - 82, lng = - 179\<rparr>) (place_at 82 1)) = Some NaN \<and>
   distance_text (map_place example_lib (Some \<lparr>lat = - 82, lng = - 179\<rparr>) (place_at 82 1)) =
     Some ''NaNkm''"
proof -
  have p: "place_distance example_lib (Some \<lparr>lat = - 82, lng = - 179\<rparr>) (place_at 82 1) = Some NaN"
    by (simp add: place_distance_def num_truthy_def raw_lat_def raw_lng_def place_at_def
        antipodal_forward)
  show ?thesis by (simp add: map_place_fields p nan_text)
qed

text \<open>
  Claim C3 says that the distance fields are present exactly when the record has both
  coordinates and the caller gave an origin. A place on the equator (latitude 0,
  longitude 10) searched with the origin (1, 2) has both coordinates and no distance.
\<close>

theorem distance_missing_at_zero_coordinate:
  "map (\<lambda>p. (place_lat p, place_lng p, distance_km p, distance_text p))
     (case searchPlaces (client_replying (Inr \<lparr>data_results = Some [place_at 0 10]\<rparr>))
             (chat_search_options [] (Some \<lparr>lat = 1, lng = 2\<rparr>)) of
        Inl e \<Rightarrow> [] | Inr r \<Rightarrow> results r) =
   [(Some 0, Some 10, None, None)]"
  by (simp add: searchPlaces_def client_replying_def chat_search_options_def map_place_fields
      place_distance_def num_truthy_def raw_lat_def raw_lng_def place_at_def)

section \<open>Properties of the chat endpoint\<close>

lemma endpoint_on_gateway_throw:
  assumes "last_user_message messages = Some m"
    and "turn_search env (content m) loc = Inl e"
  shows "chat_endpoint env (Some messages) loc =
         \<lparr>headersSent = True, statusCode = 200, writes = [sse_frame ''{}''], ended = False\<rparr>"
  using assms
  by (simp add: chat_endpoint_def streamChatWithTools_def chat_try_def turn_search_def
      sse_on_error_def message_of_string_def stringify_error_def res_write_def fresh_res_def)

lemma endpoint_on_gateway_error:
  assumes "last_user_message messages = Some m"
    and "turn_search env (content m) loc = Inr r"
    and "error r = Some err" and "err \<noteq> []"
  shows "chat_endpoint env (Some messages) loc =
         \<lparr>headersSent = True, statusCode = 200,
          writes = [sse_frame ''{}'', sse_frame ''[DONE]''], ended = True\<rparr>"
  using assms
  by (simp add: chat_endpoint_def streamChatWithTools_def chat_try_def turn_search_def
      sse_on_error_def message_of_string_def stringify_error_def res_write_def fresh_res_def
      res_end_def)

lemma escape_length: "length (concat (map json_escape_char s)) \<ge> length s"
proof (induction s)
  case Nil
  show ?case by simp
next
  case (Cons c cs)
  have "1 \<le> length (json_escape_char c)" by (simp add: json_escape_char_def)
  with Cons show ?case by simp
qed

lemma wrapped_longer: "length (sse_frame c) < length (sse_frame (stringify_content c))"
  using escape_length [of c] by (simp add: sse_frame_def stringify_content_def json_quote_def)

lemma wrapped_differs: "sse_frame (stringify_content c) \<noteq> sse_frame c"
  using wrapped_longer [of c] by auto

lemma on_chunk_string:
  "sse_on_chunk (JStr c) st =
   (if starts_with ''{\"type\":'' c
    then (st\<lparr>response := res_write (sse_frame c) (response st)\<rparr>, None)
    else (st\<lparr>response := res_write (sse_frame (stringify_content c)) (response st),
             chunkCount := chunkCount st + 1\<rparr>, None))"
  by (simp add: sse_on_chunk_def)

lemma on_chunk_writes:
  "writes (response (fst (sse_on_chunk (JStr c) st))) =
   writes (response st) @
   [if starts_with ''{\"type\":'' c then sse_frame c else sse_frame (stringify_content c)]"
  by (simp add: on_chunk_string res_write_def)

lemma prefix_truthy: "starts_with ''{\"type\":'' d \<Longrightarrow> d \<noteq> []"
  by (auto simp: starts_with_def)

lemma sse_emit_returns:
  "snd (emit_places_and_narrate env ps sse_on_chunk st) = None"
  by (simp add: emit_places_and_narrate_def on_chunk_string split: prod.splits)

lemma sse_rejection_is_gateway_throw:
  assumes "snd (streamChatWithTools env messages sse_on_chunk sse_on_error loc st) = Some e"
  shows "\<exists>m. last_user_message messages = Some m \<and> turn_search env (content m) loc = Inl e"
proof (cases "last_user_message messages")
  case None
  with assms show ?thesis
    by (simp add: streamChatWithTools_def chat_try_def sse_on_error_def)
next
  case (Some m)
  show ?thesis
  proof (cases "turn_search env (content m) loc")
    case (Inl x)
    with Some assms have "x = e"
      by (simp add: streamChatWithTools_def chat_try_def turn_search_def sse_on_error_def)
    with Some Inl show ?thesis by simp
  next
    case (Inr r)
    have "snd (chat_try env messages sse_on_chunk sse_on_error loc st) = None"
      using Some Inr sse_emit_returns [of env "results r" st]
      by (simp add: chat_try_def turn_search_def sse_on_error_def split: option.splits)
    then have "snd (streamChatWithTools env messages sse_on_chunk sse_on_error loc st) = None"
      by (cases "chat_try env messages sse_on_chunk sse_on_error loc st")
        (simp add: streamChatWithTools_def)
    with assms show ?thesis by simp
  qed
qed

text \<open>
  Claim C9 says that after an unexpected internal error the open stream still receives a
  terminal marker before it closes. When the provider fails with status 500 the
  orchestrator reports and rethrows; the endpoint has written the single frame
  \<open>data: {}\<close>, and neither the empty content delta nor \<open>data: [DONE]\<close> follows, nor is
  the response ended.
\<close>

theorem chat_endpoint_internal_error_leaves_stream_open:
  "chat_endpoint
     (turn_with (Inl \<lparr>message = ''Server error'', response_status = Some 500\<rparr>) ExtractorFirst
        (Inr \<lparr>chunks = [''L''], failure = None\<rparr>))
     (Some (user_says ''coffee'')) None =
   \<lparr>headersSent = True, statusCode = 200,
    writes = [''data: {}'' @ [CHR 0x0A, CHR 0x0A]], ended = False\<rparr> \<and>
   chat_turn
     (turn_with (Inl \<lparr>message = ''Server error'', response_status = Some 500\<rparr>) ExtractorFirst
        (Inr \<lparr>chunks = [''L''], failure = None\<rparr>))
     (user_says ''coffee'') None =
   ([OnError ''Server error''], Some \<lparr>message = ''Server error'', response_status = Some 500\<rparr>)"
proof -
  let ?e = "\<lparr>message = ''Server error'', response_status = Some 500\<rparr>"
  let ?env = "turn_with (Inl ?e) ExtractorFirst (Inr \<lparr>chunks = [''L''], failure = None\<rparr>)"
  let ?m = "\<lparr>role = ''user'', content = ''coffee''\<rparr>"
  have u: "last_user_message (user_says ''coffee'') = Some ?m" by (rule ex_user)
  have s: "turn_search ?env (content ?m) None = Inl ?e" by (simp add: ex_search_fail)
  have "chat_endpoint ?env (Some (user_says ''coffee'')) None =
        \<lparr>headersSent = True, statusCode = 200, writes = [sse_frame ''{}''], ended = False\<rparr>"
    using u s by (rule endpoint_on_gateway_throw)
  moreover have "chat_turn ?env (user_says ''coffee'') None = ([OnError (message ?e)], Some ?e)"
    using u s by (rule gateway_throw_trace)
  ultimately show ?thesis by (simp add: sse_frame_def)
qed

text \<open>
  Claim C10. The endpoint frames every chunk by a prefix test: a chunk is written
  verbatim as a data frame exactly when it starts with \<open>{"type":\<close>, and every other
  chunk, the empty terminal chunk included, is wrapped as \<open>{"content": chunk}\<close>. So a
  narration delta that starts with \<open>{"type":\<close> is written as a structured payload.
\<close>

theorem sse_framing_by_prefix:
  "writes (response (fst (sse_on_chunk (JStr c) st))) =
     writes (response st) @
     [if starts_with ''{\"type\":'' c then sse_frame c else sse_frame (stringify_content c)] \<and>
   snd (sse_on_chunk (JStr c) st) = None \<and>
   (last (writes (response (fst (sse_on_chunk (JStr c) st)))) = sse_frame c \<longleftrightarrow>
      starts_with ''{\"type\":'' c) \<and>
   last (writes (response (fst (sse_on_chunk (JStr []) st)))) =
     ''data: {\"content\":\"\"}'' @ [CHR 0x0A, CHR 0x0A] \<and>
   (parse (JStr line) = Some (delta_frame d) \<and> starts_with ''{\"type\":'' d \<longrightarrow>
      writes (response (handle_line parse sse_on_chunk st line)) =
        writes (response st) @ [sse_frame d])"
proof (intro conjI impI)
  show "writes (response (fst (sse_on_chunk (JStr c) st))) =
     writes (response st) @
     [if starts_with ''{\"type\":'' c then sse_frame c else sse_frame (stringify_content c)]"
    by (rule on_chunk_writes)
  show "snd (sse_on_chunk (JStr c) st) = None" by (simp add: on_chunk_string)
  show "last (writes (response (fst (sse_on_chunk (JStr c) st)))) = sse_frame c \<longleftrightarrow>
      starts_with ''{\"type\":'' c"
    by (simp add: on_chunk_writes wrapped_differs)
  show "last (writes (response (fst (sse_on_chunk (JStr []) st)))) =
     ''data: {\"content\":\"\"}'' @ [CHR 0x0A, CHR 0x0A]"
    by (simp add: on_chunk_writes starts_with_def sse_frame_def stringify_content_def json_quote_def)
next
  assume a: "parse (JStr line) = Some (delta_frame d) \<and> starts_with ''{\"type\":'' d"
  then have t: "d \<noteq> []" by (simp add: prefix_truthy)
  have "handle_line parse sse_on_chunk st line = fst (sse_on_chunk (JStr d) st)"
    using a t by (simp add: handle_line_def delta_frame_def message_content_def)
  then show "writes (response (handle_line parse sse_on_chunk st line)) =
        writes (response st) @ [sse_frame d]"
    using a by (simp add: on_chunk_writes)
qed

theorem sse_framing_by_prefix_witness:
  "writes (response (handle_line (parse_one ''L'' (delta_frame ''{\"type\":\"x\"}'')) sse_on_chunk
                      \<lparr>response = fresh_res, chunkCount = 0\<rparr> ''L'')) =
   [''data: {\"type\":\"x\"}'' @ [CHR 0x0A, CHR 0x0A]]"
proof -
  have p: "parse_one ''L'' (delta_frame ''{\"type\":\"x\"}'') (JStr ''L'') =
             Some (delta_frame ''{\"type\":\"x\"}'') \<and>
           starts_with ''{\"type\":'' ''{\"type\":\"x\"}''"
    by (simp add: parse_one_def starts_with_def)
  from sse_framing_by_prefix [of "''{\"type\":\"x\"}''" "\<lparr>response = fresh_res, chunkCount = 0\<rparr>"
         "parse_one ''L'' (delta_frame ''{\"type\":\"x\"}'')" "''L''" "''{\"type\":\"x\"}''"] p
  have "writes (response (handle_line (parse_one ''L'' (delta_frame ''{\"type\":\"x\"}'')) sse_on_chunk
                      \<lparr>response = fresh_res, chunkCount = 0\<rparr> ''L'')) =
        writes (response \<lparr>response = fresh_res, chunkCount = 0\<rparr>) @ [sse_frame ''{\"type\":\"x\"}'']"
    by blast
  then show ?thesis by (simp add: fresh_res_def sse_frame_def)
qed

end
